theory Spec2Isabelle
  imports Complex_Main "HOL-Library.Sublist"
begin

section \<open>Strings as Python uses them\<close>

text \<open>
  Python \<open>str\<close> values are modelled as \<open>string\<close>: the list of the bytes of the
  UTF-8 form of the text. Substring tests on the bytes agree with Python's on the
  characters. Python's \<open>len\<close> and slices count characters: a character starts at
  each byte that is not a continuation byte (\<open>0x80\<close> to \<open>0xBF\<close>).
\<close>

definition is_continuation :: "char \<Rightarrow> bool" where
  "is_continuation c = (let n = (of_char c :: nat) in 128 \<le> n \<and> n < 192)"

text \<open>\<open>s[:n]\<close> for \<open>n \<ge> 0\<close>: the bytes of the first \<open>n\<close> characters\<close>

fun take_chars :: "nat \<Rightarrow> string \<Rightarrow> string" where
  "take_chars n [] = []"
| "take_chars n (c # cs) =
     (if is_continuation c then c # take_chars n cs
      else (case n of 0 \<Rightarrow> [] | Suc m \<Rightarrow> c # take_chars m cs))"

text \<open>\<open>len(s)\<close>: the number of characters\<close>

definition py_len :: "string \<Rightarrow> nat" where
  "py_len s = length (filter (\<lambda>c. \<not> is_continuation c) s)"

text \<open>\<open>sub in s\<close>\<close>

fun py_in :: "string \<Rightarrow> string \<Rightarrow> bool" where
  "py_in sub [] = (sub = [])"
| "py_in sub (c # cs) = (prefix sub (c # cs) \<or> py_in sub cs)"

text \<open>\<open>s.lower()\<close>, on ASCII letters\<close>

definition lower_char :: "char \<Rightarrow> char" where
  "lower_char c =
     (let n = (of_char c :: nat)
      in if 65 \<le> n \<and> n \<le> 90 then char_of (n + 32) else c)"

definition lower :: "string \<Rightarrow> string" where
  "lower s = map lower_char s"

text \<open>\<open>s.split(sep)\<close> for a one-character separator: never an empty list\<close>

fun split_on :: "char \<Rightarrow> string \<Rightarrow> string list" where
  "split_on sep [] = [[]]"
| "split_on sep (c # cs) =
     (if c = sep then [] # split_on sep cs
      else (case split_on sep cs of [] \<Rightarrow> [[c]] | w # ws \<Rightarrow> (c # w) # ws))"

definition newline :: char where
  "newline = CHR 0x0A"

definition carriage_return :: char where
  "carriage_return = CHR 0x0D"

text \<open>\<open>sep.join(parts)\<close> for a one-character separator\<close>

fun join_with :: "char \<Rightarrow> string list \<Rightarrow> string" where
  "join_with sep [] = []"
| "join_with sep [w] = w"
| "join_with sep (w # ws) = w @ sep # join_with sep ws"

text \<open>\<open>str(n)\<close> for an integer\<close>

fun str_nat :: "nat \<Rightarrow> string" where
  "str_nat n =
     (if n < 10 then [char_of (48 + n)]
      else str_nat (n div 10) @ [char_of (48 + n mod 10)])"

definition str_int :: "int \<Rightarrow> string" where
  "str_int i = (if i < 0 then CHR ''-'' # str_nat (nat (- i)) else str_nat (nat i))"

section \<open>Data model (ralph/models.py)\<close>

datatype TaskStatus = PENDING | RUNNING | COMPLETED | FAILED | TIMEOUT | CANCELLED

datatype IterationStatus = IT_RUNNING | IT_COMPLETED | IT_FAILED | IT_NEEDS_REVIEW

text \<open>The values of a \<open>Dict[str, Any]\<close> that the toolkit reads or builds.\<close>

datatype jval = JNull | JBool bool | JInt int | JStr string | JList "jval list"

type_synonym dict = "(string \<times> jval) list"

text \<open>
  Field names carry a prefix where two classes of the source share a name. Left out,
  since no modelled function reads them: the wall-clock fields (\<open>timestamp\<close>,
  \<open>started_at\<close>, \<open>completed_at\<close>, and \<open>duration_ms\<close> of an iteration and of a
  backpressure result), the identifiers, \<open>git_commits\<close>, the token counter, and the
  settings of the context builder and of the model in the configuration.
\<close>

record ToolCall =
  tool_name :: string
  arguments :: dict
  tc_result :: "dict option"
  tc_error :: "string option"
  tc_duration_ms :: int

record FileChange =
  fc_path :: string
  fc_action :: string
  content_preview :: "string option"
  lines_added :: int
  lines_removed :: int

record BackpressureResult =
  check_type :: string
  passed :: bool
  bp_output :: string
  bp_errors :: "string list"
  bp_warnings :: "string list"

record RalphIteration =
  iteration_number :: int
  it_status :: IterationStatus
  prompt_sent :: string
  agent_response :: string
  reasoning :: string
  tool_calls :: "ToolCall list"
  file_changes :: "FileChange list"
  backpressure_results :: "BackpressureResult list"
  completion_promise_found :: bool
  completion_message :: "string option"
  it_error :: "string option"

record CompletionResult =
  is_complete :: bool
  reason :: string
  confidence :: real
  promise_detected :: bool
  all_tests_passed :: bool
  no_errors :: bool

record RalphTaskConfig =
  completion_promise :: string
  max_iterations :: int
  iteration_timeout_seconds :: int
  run_tests :: bool
  run_lint :: bool
  run_typecheck :: bool
  run_build :: bool
  test_command :: "string option"
  lint_command :: "string option"
  typecheck_command :: "string option"
  build_command :: "string option"
  working_directory :: string

record RalphTask =
  prompt :: string
  description :: string
  config :: RalphTaskConfig
  status :: TaskStatus
  current_iteration :: int
  iterations :: "RalphIteration list"
  completion_result :: "CompletionResult option"
  final_output :: "string option"
  error :: "string option"
  total_tool_calls :: int
  total_file_changes :: int

text \<open>The field defaults of the classes.\<close>

definition new_ToolCall :: "string \<Rightarrow> dict \<Rightarrow> ToolCall" where
  "new_ToolCall name args =
     \<lparr>tool_name = name, arguments = args, tc_result = None, tc_error = None,
      tc_duration_ms = 0\<rparr>"

definition new_RalphIteration :: "int \<Rightarrow> RalphIteration" where
  "new_RalphIteration n =
     \<lparr>iteration_number = n, it_status = IT_RUNNING, prompt_sent = [], agent_response = [],
      reasoning = [], tool_calls = [], file_changes = [], backpressure_results = [],
      completion_promise_found = False, completion_message = None, it_error = None\<rparr>"

definition new_CompletionResult :: CompletionResult where
  "new_CompletionResult =
     \<lparr>is_complete = False, reason = [], confidence = 0, promise_detected = False,
      all_tests_passed = False, no_errors = True\<rparr>"

definition default_promise :: string where
  "default_promise = ''<promise>COMPLETE</promise>''"

definition new_RalphTaskConfig :: RalphTaskConfig where
  "new_RalphTaskConfig =
     \<lparr>completion_promise = default_promise, max_iterations = 50,
      iteration_timeout_seconds = 300, run_tests = True, run_lint = True,
      run_typecheck = True, run_build = False, test_command = None, lint_command = None,
      typecheck_command = None, build_command = None, working_directory = ''.''\<rparr>"

definition new_RalphTask :: "string \<Rightarrow> string \<Rightarrow> RalphTaskConfig \<Rightarrow> RalphTask" where
  "new_RalphTask p d c =
     \<lparr>prompt = p, description = d, config = c, status = PENDING, current_iteration = 0,
      iterations = [], completion_result = None, final_output = None, error = None,
      total_tool_calls = 0, total_file_changes = 0\<rparr>"

text \<open>\<open>RalphIteration.complete\<close>: the status; the timing fields are not modelled.\<close>

definition iteration_complete :: "IterationStatus \<Rightarrow> RalphIteration \<Rightarrow> RalphIteration" where
  "iteration_complete s it = it\<lparr>it_status := s\<rparr>"

text \<open>The methods of \<open>RalphTask\<close>.\<close>

definition start :: "RalphTask \<Rightarrow> RalphTask" where
  "start t = t\<lparr>status := RUNNING\<rparr>"

definition complete :: "CompletionResult \<Rightarrow> string \<Rightarrow> RalphTask \<Rightarrow> RalphTask" where
  "complete res out t =
     t\<lparr>status := COMPLETED, completion_result := Some res, final_output := Some out\<rparr>"

definition fail :: "string \<Rightarrow> RalphTask \<Rightarrow> RalphTask" where
  "fail e t = t\<lparr>status := FAILED, error := Some e\<rparr>"

definition timeout :: "RalphTask \<Rightarrow> RalphTask" where
  "timeout t =
     t\<lparr>status := TIMEOUT,
       error := Some (''Task timed out after '' @ str_int (current_iteration t) @ '' iterations'')\<rparr>"

definition cancel :: "RalphTask \<Rightarrow> RalphTask" where
  "cancel t = t\<lparr>status := CANCELLED\<rparr>"

definition add_iteration :: "RalphIteration \<Rightarrow> RalphTask \<Rightarrow> RalphTask" where
  "add_iteration it t =
     t\<lparr>iterations := iterations t @ [it],
       current_iteration := int (length (iterations t @ [it])),
       total_tool_calls := total_tool_calls t + int (length (tool_calls it)),
       total_file_changes := total_file_changes t + int (length (file_changes it))\<rparr>"

section \<open>Completion detection (ralph/completion.py)\<close>

text \<open>
  The alternate patterns are regular expressions made of literal characters and the
  optional class \<open>[_\s]?\<close>; they are searched with \<open>re.IGNORECASE\<close>. \<open>\s\<close> is
  taken on ASCII: tab, line feed, vertical tab, form feed, carriage return, the four
  separators 28 to 31 and the space.
\<close>

definition is_space :: "char \<Rightarrow> bool" where
  "is_space c = (let n = (of_char c :: nat) in (9 \<le> n \<and> n \<le> 13) \<or> (28 \<le> n \<and> n \<le> 32))"

datatype rx = Lit char | OptSep

text \<open>The text matched at the start of the string, the optional class being greedy.\<close>

fun rx_match :: "rx list \<Rightarrow> string \<Rightarrow> string option" where
  "rx_match [] s = Some []"
| "rx_match (Lit c # r) [] = None"
| "rx_match (Lit c # r) (x # xs) =
     (if lower_char x = lower_char c then map_option ((#) x) (rx_match r xs) else None)"
| "rx_match (OptSep # r) [] = rx_match r []"
| "rx_match (OptSep # r) (x # xs) =
     (if x = CHR ''_'' \<or> is_space x
      then (case rx_match r xs of Some m \<Rightarrow> Some (x # m) | None \<Rightarrow> rx_match r (x # xs))
      else rx_match r (x # xs))"

text \<open>\<open>re.search\<close>: the leftmost match, \<open>match.group()\<close> being its text.\<close>

fun rx_search :: "rx list \<Rightarrow> string \<Rightarrow> string option" where
  "rx_search r [] = rx_match r []"
| "rx_search r (x # xs) =
     (case rx_match r (x # xs) of Some m \<Rightarrow> Some m | None \<Rightarrow> rx_search r xs)"

definition lits :: "string \<Rightarrow> rx list" where
  "lits s = map Lit s"

definition completion_patterns :: "rx list list" where
  "completion_patterns =
     [lits ''<promise>COMPLETE</promise>'',
      lits ''TASK'' @ [OptSep] @ lits ''COMPLETE'',
      lits ''LOOP'' @ [OptSep] @ lits ''COMPLETE'',
      lits ''DONE'' @ [OptSep] @ lits ''COMPLETE'',
      lits ''[COMPLETE]'',
      lits ''[DONE]'']"

text \<open>A detector is the promise it was constructed with.\<close>

record CompletionDetector =
  cd_completion_promise :: string

definition new_CompletionDetector :: "string \<Rightarrow> CompletionDetector" where
  "new_CompletionDetector p = \<lparr>cd_completion_promise = p\<rparr>"

text \<open>The loop over the alternate patterns: the first pattern that matches.\<close>

fun first_pattern_match :: "rx list list \<Rightarrow> string \<Rightarrow> string option" where
  "first_pattern_match [] response = None"
| "first_pattern_match (p # ps) response =
     (case rx_search p response of Some m \<Rightarrow> Some m | None \<Rightarrow> first_pattern_match ps response)"

text \<open>\<open>_check_completion_promise\<close>: the pair of \<open>found\<close> and \<open>match\<close>.\<close>

definition check_completion_promise ::
  "CompletionDetector \<Rightarrow> string \<Rightarrow> string option \<Rightarrow> bool \<times> string option" where
  "check_completion_promise det response custom_promise =
     (case (case custom_promise of
              Some c \<Rightarrow> if c \<noteq> [] \<and> py_in c response then Some c else None
            | None \<Rightarrow> None) of
        Some c \<Rightarrow> (True, Some c)
      | None \<Rightarrow>
          if py_in (cd_completion_promise det) response
          then (True, Some (cd_completion_promise det))
          else (case first_pattern_match completion_patterns response of
                  Some m \<Rightarrow> (True, Some m)
                | None \<Rightarrow> (False, None)))"

text \<open>
  \<open>_check_backpressure\<close>: the pair of \<open>all_passed\<close> and \<open>no_errors\<close>. The \<open>details\<close>
  entry of the returned dictionary has no reader and is left out.
\<close>

definition check_backpressure :: "BackpressureResult list \<Rightarrow> bool \<times> bool" where
  "check_backpressure results =
     (if results = [] then (True, True)
      else (list_all passed results, list_all (\<lambda>r. length (bp_errors r) = 0) results))"

text \<open>Python's truth value of an \<open>Optional[str]\<close>: neither \<open>None\<close> nor empty.\<close>

definition truthy :: "string option \<Rightarrow> bool" where
  "truthy e = (case e of None \<Rightarrow> False | Some s \<Rightarrow> s \<noteq> [])"

text \<open>
  \<open>_check_for_errors\<close>: its \<open>has_critical_error\<close>. The regular expressions of this
  function only add to \<open>errors_found\<close>, which no caller reads.
\<close>

definition check_for_errors :: "RalphIteration \<Rightarrow> bool" where
  "check_for_errors it =
     (truthy (it_error it) \<or> list_ex (\<lambda>tc. truthy (tc_error tc)) (tool_calls it))"

definition completion_phrases :: "string list" where
  "completion_phrases =
     [''task is complete'', ''completed successfully'', ''all done'',
      ''finished implementing'', ''implementation complete'', ''changes have been made'',
      ''everything is working'', ''tests pass'', ''all tests pass'']"

definition verification_phrases :: "string list" where
  "verification_phrases =
     [''please review'', ''ready for review'', ''let me know if'', ''should i'',
      ''would you like'']"

definition no_change_phrases :: "string list" where
  "no_change_phrases =
     [''no changes needed'', ''no further changes'', ''nothing left to do'',
      ''all requirements met'']"

text \<open>One of the three phrase loops: \<open>w\<close> is added for each phrase found.\<close>

fun add_phrases :: "real \<Rightarrow> string list \<Rightarrow> string \<Rightarrow> real \<Rightarrow> real" where
  "add_phrases w [] response c = c"
| "add_phrases w (p # ps) response c =
     add_phrases w ps response (if py_in p response then c + w else c)"

text \<open>
  \<open>_analyze_progress\<close>: the pair of \<open>appears_complete\<close> and \<open>confidence\<close>. The
  confidence is a Python float; the model adds the weights as real numbers.
\<close>

definition analyze_progress :: "RalphTask \<Rightarrow> RalphIteration \<Rightarrow> bool \<times> real" where
  "analyze_progress task current =
     (let response = lower (agent_response current);
          c1 = add_phrases (15 / 100) completion_phrases response 0;
          c2 = add_phrases (1 / 10) verification_phrases response c1;
          c3 = add_phrases (2 / 10) no_change_phrases response c2;
          c4 = (if tool_calls current \<noteq> [] \<and>
                   list_all (\<lambda>tc. py_in ''read'' (lower (tool_name tc)) \<or>
                                   py_in ''get'' (lower (tool_name tc))) (tool_calls current)
                then c3 + 1 / 10 else c3);
          c5 = (if length (iterations task) \<ge> 2 \<and>
                   length (file_changes current) <
                     length (file_changes (iterations task ! (length (iterations task) - 2)))
                then c4 + 5 / 100 else c4);
          c = min c5 (7 / 10)
      in (c \<ge> 1 / 2 \<and> \<not> truthy (it_error current) \<and>
            list_all passed (backpressure_results current), c))"

definition check_completion ::
  "CompletionDetector \<Rightarrow> RalphTask \<Rightarrow> RalphIteration \<Rightarrow> CompletionResult" where
  "check_completion det task current =
     (let result = new_CompletionResult;
          promise_check = check_completion_promise det (agent_response current)
                            (Some (completion_promise (config task)));
          result = result\<lparr>promise_detected := fst promise_check\<rparr>
      in if fst promise_check
         then result\<lparr>is_complete := True,
                reason := ''Completion promise detected: '' @
                          (case snd promise_check of Some m \<Rightarrow> m | None \<Rightarrow> ''None''),
                confidence := 1\<rparr>
         else
           let bp_check = check_backpressure (backpressure_results current);
               result = result\<lparr>all_tests_passed := fst bp_check, no_errors := snd bp_check\<rparr>;
               result = (if check_for_errors current then result\<lparr>no_errors := False\<rparr>
                         else result);
               progress_check = analyze_progress task current
           in if all_tests_passed result \<and> no_errors result \<and> fst progress_check
              then result\<lparr>is_complete := True,
                     reason := ''All tests passed, no errors, task appears complete'',
                     confidence := snd progress_check\<rparr>
              else if \<not> no_errors result
              then result\<lparr>is_complete := False, reason := ''Errors detected in iteration'',
                     confidence := 0\<rparr>
              else result\<lparr>is_complete := False, reason := ''Task still in progress'',
                     confidence := snd progress_check\<rparr>)"

text \<open>\<open>xs[-n:]\<close>\<close>

definition last_n :: "nat \<Rightarrow> 'a list \<Rightarrow> 'a list" where
  "last_n n xs = drop (length xs - n) xs"

definition should_stop :: "RalphTask \<Rightarrow> CompletionResult \<Rightarrow> bool \<times> string" where
  "should_stop task cr =
     (if is_complete cr then (True, reason cr)
      else if current_iteration task \<ge> max_iterations (config task)
      then (True, ''Max iterations ('' @ str_int (max_iterations (config task)) @ '') reached'')
      else if length (iterations task) \<ge> 5 \<and>
              length (filter (\<lambda>i. it_error i \<noteq> None) (last_n 5 (iterations task))) \<ge> 4
      then (True, ''Too many consecutive errors'')
      else if length (iterations task) \<ge> 3 \<and>
              length (remdups (map (\<lambda>i. take_chars 500 (agent_response i))
                                   (last_n 3 (iterations task)))) = 1
      then (True, ''Agent appears stuck (identical responses)'')
      else (False, []))"

section \<open>The toolkit (ralph/tools.py)\<close>

subsection \<open>The world the tools act on\<close>

text \<open>
  A canonical absolute path is the list of its components; the root is the empty list.
  The file system maps a path to a regular file with its bytes or to a directory. It has
  no symbolic links, permissions or quotas, so that \<open>Path.resolve\<close> is the lexical
  normal form. Every process the toolkit spawns or kills is logged.
\<close>

type_synonym path = "string list"

datatype node = File string | Dir

type_synonym filesystem = "path \<Rightarrow> node option"

datatype proc_event = Spawned string path | Killed string

record world =
  fs :: filesystem
  proc_log :: "proc_event list"

text \<open>
  How a subprocess ends, decided by the world: it exits with its output and return code,
  it is still running when the timeout expires (with the output it has written so far),
  or spawning it raises. A subprocess may change the file system.
\<close>

datatype proc_outcome =
    Exited string string int
  | TimedOut string string
  | SpawnFailed string

type_synonym shell = "world \<Rightarrow> string \<Rightarrow> path \<Rightarrow> int \<Rightarrow> proc_outcome \<times> filesystem"

text \<open>
  Exceptions. The text of an exception the source raises itself is exact; the text of an
  exception of the Python library is abbreviated.
\<close>

datatype exn = ValueError string | TypeError string | OSError string

fun exn_str :: "exn \<Rightarrow> string" where
  "exn_str (ValueError m) = m"
| "exn_str (TypeError m) = m"
| "exn_str (OSError m) = m"

definition path_step :: "path \<Rightarrow> string \<Rightarrow> path" where
  "path_step acc c =
     (if c = [] \<or> c = ''.'' then acc else if c = ''..'' then butlast acc else acc @ [c])"

text \<open>\<open>(base / s).resolve()\<close>: an absolute \<open>s\<close> replaces the base.\<close>

definition resolve :: "path \<Rightarrow> string \<Rightarrow> path" where
  "resolve base s =
     foldl path_step (if prefix ''/'' s then [] else base) (split_on CHR ''/'' s)"

text \<open>\<open>str(p)\<close> of a canonical path\<close>

definition path_str :: "path \<Rightarrow> string" where
  "path_str p = (if p = [] then ''/'' else concat (map (\<lambda>c. CHR ''/'' # c) p))"

definition fs_exists :: "filesystem \<Rightarrow> path \<Rightarrow> bool" where
  "fs_exists f p = (p = [] \<or> f p \<noteq> None)"

definition is_dir :: "filesystem \<Rightarrow> path \<Rightarrow> bool" where
  "is_dir f p = (p = [] \<or> f p = Some Dir)"

definition is_file :: "filesystem \<Rightarrow> path \<Rightarrow> bool" where
  "is_file f p = (p \<noteq> [] \<and> (case f p of Some (File _) \<Rightarrow> True | _ \<Rightarrow> False))"

text \<open>\<open>Path.mkdir(parents=True, exist_ok=True)\<close>, from the root downwards\<close>

fun mkdirs :: "filesystem \<Rightarrow> path \<Rightarrow> string list \<Rightarrow> exn + filesystem" where
  "mkdirs f pre [] = Inr f"
| "mkdirs f pre (c # cs) =
     (case f (pre @ [c]) of
        Some (File _) \<Rightarrow> Inl (OSError (''File exists: '' @ path_str (pre @ [c])))
      | Some Dir \<Rightarrow> mkdirs f (pre @ [c]) cs
      | None \<Rightarrow> mkdirs (f(pre @ [c] \<mapsto> Dir)) (pre @ [c]) cs)"

definition mkdir_parents :: "filesystem \<Rightarrow> path \<Rightarrow> exn + filesystem" where
  "mkdir_parents f p = mkdirs f [] p"

text \<open>
  Text files are opened with the default \<open>newline=None\<close>. On reading, universal
  newlines are in force: each \<open>\r\n\<close> and each remaining \<open>\r\<close> becomes \<open>\n\<close>. On
  writing, \<open>\n\<close> becomes the line separator of the platform, which is \<open>\n\<close> itself on
  POSIX, the platform modelled here. The UTF-8 coding of the text is the identity of the
  byte model.
\<close>

fun universal_newlines :: "string \<Rightarrow> string" where
  "universal_newlines [] = []"
| "universal_newlines [c] = [if c = carriage_return then newline else c]"
| "universal_newlines (c # d # ds) =
     (if c = carriage_return \<and> d = newline then newline # universal_newlines ds
      else if c = carriage_return then newline # universal_newlines (d # ds)
      else c # universal_newlines (d # ds))"

definition read_text :: "filesystem \<Rightarrow> path \<Rightarrow> exn + string" where
  "read_text f p =
     (if p = [] then Inl (OSError ''Is a directory: /'')
      else case f p of
             Some (File bytes) \<Rightarrow> Inr (universal_newlines bytes)
           | Some Dir \<Rightarrow> Inl (OSError (''Is a directory: '' @ path_str p))
           | None \<Rightarrow> Inl (OSError (''No such file or directory: '' @ path_str p)))"

definition write_text :: "filesystem \<Rightarrow> path \<Rightarrow> string \<Rightarrow> exn + filesystem" where
  "write_text f p data =
     (if is_dir f p then Inl (OSError (''Is a directory: '' @ path_str p))
      else if \<not> is_dir f (butlast p)
      then Inl (OSError (''No such file or directory: '' @ path_str p))
      else Inr (f(p \<mapsto> File data)))"

subsection \<open>The toolkit\<close>

record RalphToolkit =
  working_dir :: path
  allow_shell :: bool
  command_timeout :: int
  tk_file_changes :: "FileChange list"

text \<open>
  The constructor: \<open>Path(working_directory).resolve()\<close>, relative to the current
  directory of the process.
\<close>

definition new_RalphToolkit :: "path \<Rightarrow> string \<Rightarrow> bool \<Rightarrow> int \<Rightarrow> RalphToolkit" where
  "new_RalphToolkit cwd wd allow t =
     \<lparr>working_dir = resolve cwd wd, allow_shell = allow, command_timeout = t,
      tk_file_changes = []\<rparr>"

text \<open>
  \<open>_resolve_path\<close>. The library raises \<open>ValueError\<close> on a path with a NUL character.
\<close>

definition resolve_path :: "RalphToolkit \<Rightarrow> string \<Rightarrow> exn + path" where
  "resolve_path tk p =
     (if CHR 0x00 \<in> set p then Inl (ValueError ''embedded null byte'')
      else let resolved = resolve (working_dir tk) p
           in if \<not> prefix (path_str (working_dir tk)) (path_str resolved)
              then Inl (ValueError (''Path '' @ p @ '' is outside working directory''))
              else Inr resolved)"

text \<open>\<open>len(content.split("\n"))\<close>\<close>

definition count_lines :: "string \<Rightarrow> int" where
  "count_lines content = int (length (split_on newline content))"

text \<open>\<open>xs[start:end]\<close> with Python's treatment of negative and large indices\<close>

definition slice_index :: "nat \<Rightarrow> int \<Rightarrow> nat" where
  "slice_index n i = (if i < 0 then nat (max 0 (int n + i)) else min (nat i) n)"

definition py_slice :: "'a list \<Rightarrow> int \<Rightarrow> int \<Rightarrow> 'a list" where
  "py_slice xs i j =
     take (slice_index (length xs) j - slice_index (length xs) i)
          (drop (slice_index (length xs) i) xs)"

text \<open>
  \<open>_tool_read_file\<close>; \<open>start_line\<close> and \<open>end_line\<close> are \<open>Optional[int]\<close>. Reading
  changes nothing.
\<close>

definition tool_read_file ::
  "RalphToolkit \<Rightarrow> world \<Rightarrow> string \<Rightarrow> int option \<Rightarrow> int option \<Rightarrow> exn + dict" where
  "tool_read_file tk w p start_line end_line =
     (case resolve_path tk p of
        Inl e \<Rightarrow> Inl e
      | Inr full_path \<Rightarrow>
          if \<not> fs_exists (fs w) full_path
          then Inr [(''error'', JStr (''File not found: '' @ p))]
          else if \<not> is_file (fs w) full_path
          then Inr [(''error'', JStr (''Not a file: '' @ p))]
          else (case read_text (fs w) full_path of
                  Inl e \<Rightarrow> Inr [(''error'', JStr (''Failed to read file: '' @ exn_str e))]
                | Inr content0 \<Rightarrow>
                    let lines = split_on newline content0;
                        content =
                          (if start_line \<noteq> None \<or> end_line \<noteq> None
                           then let start = (case start_line of
                                               None \<Rightarrow> 1
                                             | Some n \<Rightarrow> if n = 0 then 1 else n) - 1;
                                    end = (case end_line of
                                             None \<Rightarrow> int (length lines)
                                           | Some n \<Rightarrow> if n = 0 then int (length lines) else n)
                                in join_with newline (py_slice lines start end)
                           else content0)
                    in Inr [(''path'', JStr p), (''content'', JStr content),
                            (''lines'', JInt (count_lines content)),
                            (''size'', JInt (int (py_len content)))]))"

definition new_FileChange ::
  "string \<Rightarrow> string \<Rightarrow> string option \<Rightarrow> int \<Rightarrow> int \<Rightarrow> FileChange" where
  "new_FileChange p a prev added removed =
     \<lparr>fc_path = p, fc_action = a, content_preview = prev, lines_added = added,
      lines_removed = removed\<rparr>"

text \<open>
  \<open>_tool_write_file\<close>: the value returned or the exception raised, with the toolkit and
  the world after the call. Directories made before a later step fails stay.
\<close>

definition tool_write_file ::
  "RalphToolkit \<Rightarrow> world \<Rightarrow> string \<Rightarrow> string \<Rightarrow> (exn + dict) \<times> RalphToolkit \<times> world" where
  "tool_write_file tk w p content =
     (case resolve_path tk p of
        Inl e \<Rightarrow> (Inl e, tk, w)
      | Inr full_path \<Rightarrow>
          (case mkdir_parents (fs w) (butlast full_path) of
             Inl e \<Rightarrow> (Inr [(''error'', JStr (''Failed to write file: '' @ exn_str e))], tk, w)
           | Inr f1 \<Rightarrow>
               let action = (if fs_exists f1 full_path then ''modify'' else ''create'')
               in (case (if fs_exists f1 full_path
                         then map_sum id count_lines (read_text f1 full_path)
                         else Inr 0) of
                     Inl e \<Rightarrow>
                       (Inr [(''error'', JStr (''Failed to write file: '' @ exn_str e))],
                        tk, w\<lparr>fs := f1\<rparr>)
                   | Inr old_lines \<Rightarrow>
                       (case write_text f1 full_path content of
                          Inl e \<Rightarrow>
                            (Inr [(''error'', JStr (''Failed to write file: '' @ exn_str e))],
                             tk, w\<lparr>fs := f1\<rparr>)
                        | Inr f2 \<Rightarrow>
                            let new_lines = count_lines content;
                                change = new_FileChange p action (Some (take_chars 200 content))
                                  (if action = ''create'' then new_lines
                                   else max 0 (new_lines - old_lines))
                                  (if action = ''create'' then 0
                                   else max 0 (old_lines - new_lines))
                            in (Inr [(''success'', JBool True), (''path'', JStr p),
                                     (''action'', JStr action), (''lines'', JInt new_lines)],
                                tk\<lparr>tk_file_changes := tk_file_changes tk @ [change]\<rparr>,
                                w\<lparr>fs := f2\<rparr>)))))"

text \<open>
  \<open>_run_shell_command\<close>: the dictionary returned and the world after the call. The
  source catches every exception here.
\<close>

definition run_shell_command ::
  "shell \<Rightarrow> RalphToolkit \<Rightarrow> world \<Rightarrow> string \<Rightarrow> int \<Rightarrow> dict \<times> world" where
  "run_shell_command sh tk w command t =
     (case sh w command (working_dir tk) t of
        (SpawnFailed e, f) \<Rightarrow>
          ([(''error'', JStr (''Command execution failed: '' @ e))], w\<lparr>fs := f\<rparr>)
      | (TimedOut out err, f) \<Rightarrow>
          ([(''error'', JStr (''Command timed out after '' @ str_int t @ ''s'')),
            (''exit_code'', JInt (- 1))],
           w\<lparr>fs := f,
             proc_log := proc_log w @ [Spawned command (working_dir tk), Killed command]\<rparr>)
      | (Exited out err rc, f) \<Rightarrow>
          ([(''stdout'', JStr (take_chars 10000 out)), (''stderr'', JStr (take_chars 5000 err)),
            (''exit_code'', JInt rc), (''success'', JBool (rc = 0))],
           w\<lparr>fs := f, proc_log := proc_log w @ [Spawned command (working_dir tk)]\<rparr>))"

definition dangerous :: "string list" where
  "dangerous = [''rm -rf /'', ''mkfs'', ''> /dev/'', ''dd if='']"

text \<open>The loop over the denylist: the first entry the command contains.\<close>

fun first_dangerous :: "string list \<Rightarrow> string \<Rightarrow> string option" where
  "first_dangerous [] command = None"
| "first_dangerous (d # ds) command =
     (if py_in d command then Some d else first_dangerous ds command)"

definition tool_run_command ::
  "shell \<Rightarrow> RalphToolkit \<Rightarrow> world \<Rightarrow> string \<Rightarrow> int \<Rightarrow> dict \<times> world" where
  "tool_run_command sh tk w command t =
     (if \<not> allow_shell tk then ([(''error'', JStr ''Shell commands are disabled'')], w)
      else case first_dangerous dangerous command of
             Some d \<Rightarrow> ([(''error'', JStr (''Dangerous command blocked: '' @ d))], w)
           | None \<Rightarrow> run_shell_command sh tk w command (min t 300))"

definition tool_complete_task :: "string \<Rightarrow> dict" where
  "tool_complete_task summary =
     [(''signal'', JStr ''COMPLETE''), (''summary'', JStr summary),
      (''completion_promise'', JStr ''<promise>COMPLETE</promise>'')]"

text \<open>\<open>get_file_changes\<close>: the buffer, which is cleared.\<close>

definition get_file_changes :: "RalphToolkit \<Rightarrow> FileChange list \<times> RalphToolkit" where
  "get_file_changes tk = (tk_file_changes tk, tk\<lparr>tk_file_changes := []\<rparr>)"

subsection \<open>Dispatch\<close>

text \<open>
  A tool method takes the keyword arguments and returns a dictionary or raises; it may
  change the toolkit and the world. The type annotations of the source give the types of
  the arguments. Python does not check them: the model raises \<open>TypeError\<close> at the call
  for a missing or unexpected keyword and also for a value of another type, where Python
  fails at the first use of the value.
\<close>

type_synonym tool_method = "RalphToolkit \<Rightarrow> world \<Rightarrow> dict \<Rightarrow> (exn + dict) \<times> RalphToolkit \<times> world"

definition arg_names_ok :: "string list \<Rightarrow> dict \<Rightarrow> bool" where
  "arg_names_ok allowed args = list_all (\<lambda>kv. fst kv \<in> set allowed) args"

definition bad_arguments :: exn where
  "bad_arguments = TypeError ''bad keyword arguments''"

text \<open>An \<open>Optional[int]\<close> argument with default \<open>None\<close>; no value if it is ill-typed.\<close>

fun opt_int_arg :: "jval option \<Rightarrow> int option option" where
  "opt_int_arg None = Some None"
| "opt_int_arg (Some JNull) = Some None"
| "opt_int_arg (Some (JInt n)) = Some (Some n)"
| "opt_int_arg (Some v) = None"

definition call_read_file :: tool_method where
  "call_read_file tk w args =
     (if \<not> arg_names_ok [''path'', ''start_line'', ''end_line''] args
      then (Inl bad_arguments, tk, w)
      else case (map_of args ''path'', opt_int_arg (map_of args ''start_line''),
                 opt_int_arg (map_of args ''end_line'')) of
             (Some (JStr p), Some s, Some e) \<Rightarrow> (tool_read_file tk w p s e, tk, w)
           | _ \<Rightarrow> (Inl bad_arguments, tk, w))"

definition call_write_file :: tool_method where
  "call_write_file tk w args =
     (if \<not> arg_names_ok [''path'', ''content''] args then (Inl bad_arguments, tk, w)
      else case (map_of args ''path'', map_of args ''content'') of
             (Some (JStr p), Some (JStr c)) \<Rightarrow> tool_write_file tk w p c
           | _ \<Rightarrow> (Inl bad_arguments, tk, w))"

definition call_run_command :: "shell \<Rightarrow> tool_method" where
  "call_run_command sh tk w args =
     (if \<not> arg_names_ok [''command'', ''timeout''] args then (Inl bad_arguments, tk, w)
      else case (map_of args ''command'', map_of args ''timeout'') of
             (Some (JStr c), None) \<Rightarrow>
               (case tool_run_command sh tk w c 60 of (d, w') \<Rightarrow> (Inr d, tk, w'))
           | (Some (JStr c), Some (JInt t)) \<Rightarrow>
               (case tool_run_command sh tk w c t of (d, w') \<Rightarrow> (Inr d, tk, w'))
           | _ \<Rightarrow> (Inl bad_arguments, tk, w))"

definition call_complete_task :: tool_method where
  "call_complete_task tk w args =
     (if \<not> arg_names_ok [''summary''] args then (Inl bad_arguments, tk, w)
      else case map_of args ''summary'' of
             Some (JStr s) \<Rightarrow> (Inr (tool_complete_task s), tk, w)
           | _ \<Rightarrow> (Inl bad_arguments, tk, w))"

text \<open>
  The other tool methods of the class are not modelled: what each of them does is a
  parameter.
\<close>

definition other_tools :: "string list" where
  "other_tools =
     [''edit_file'', ''list_files'', ''search_files'', ''git_status'', ''git_diff'',
      ''git_commit'', ''create_directory'', ''delete_file'']"

text \<open>\<open>getattr(self, f"_tool_{tool_name}", None)\<close>\<close>

definition getattr_tool :: "shell \<Rightarrow> (string \<Rightarrow> tool_method) \<Rightarrow> string \<Rightarrow> tool_method option" where
  "getattr_tool sh others name =
     (if name = ''read_file'' then Some call_read_file
      else if name = ''write_file'' then Some call_write_file
      else if name = ''run_command'' then Some (call_run_command sh)
      else if name = ''complete_task'' then Some call_complete_task
      else if name \<in> set other_tools then Some (others name)
      else None)"

text \<open>\<open>int(x)\<close> of a float: truncation towards zero\<close>

definition py_int :: "real \<Rightarrow> int" where
  "py_int x = (if x < 0 then \<lceil>x\<rceil> else \<lfloor>x\<rfloor>)"

text \<open>
  \<open>execute_tool\<close>; \<open>t_start\<close> and \<open>t_end\<close> are the two readings of \<open>time.time()\<close>.
  The handler is \<open>except Exception\<close>: the exceptions modelled are of this class.
\<close>

definition execute_tool ::
  "shell \<Rightarrow> (string \<Rightarrow> tool_method) \<Rightarrow> RalphToolkit \<Rightarrow> world \<Rightarrow> string \<Rightarrow> dict \<Rightarrow> real \<Rightarrow> real
     \<Rightarrow> ToolCall \<times> RalphToolkit \<times> world" where
  "execute_tool sh others tk w name args t_start t_end =
     (let tool_call = new_ToolCall name args;
          r = (case getattr_tool sh others name of
                 None \<Rightarrow> (tool_call\<lparr>tc_error := Some (''Unknown tool: '' @ name)\<rparr>, tk, w)
               | Some m \<Rightarrow>
                   (case m tk w args of
                      (Inr res, tk', w') \<Rightarrow> (tool_call\<lparr>tc_result := Some res\<rparr>, tk', w')
                    | (Inl e, tk', w') \<Rightarrow> (tool_call\<lparr>tc_error := Some (exn_str e)\<rparr>, tk', w')))
      in case r of
           (tc, tk', w') \<Rightarrow> (tc\<lparr>tc_duration_ms := py_int ((t_end - t_start) * 1000)\<rparr>, tk', w'))"

section \<open>The loop agent (ralph/loop-agent module)\<close>

subsection \<open>Backpressure\<close>

text \<open>\<open>s.strip()\<close>\<close>

definition strip :: "string \<Rightarrow> string" where
  "strip s = rev (dropWhile is_space (rev (dropWhile is_space s)))"

text \<open>
  \<open>_extract_errors\<close> tests its patterns with \<open>in\<close>, as plain text. The last two are
  the UTF-8 bytes of the ballot crosses U+2717 and U+2716, one character each in Python.
\<close>

definition error_patterns :: "(string \<times> nat) list" where
  "error_patterns =
     [(''error[:'' @ [CHR 0x5C] @ ''s]'', 10), (''Error[:'' @ [CHR 0x5C] @ ''s]'', 10),
      (''ERROR[:'' @ [CHR 0x5C] @ ''s]'', 10), (''failed'', 6), (''FAILED'', 6),
      ([CHR 0xE2, CHR 0x9C, CHR 0x97], 1), ([CHR 0xE2, CHR 0x9C, CHR 0x96], 1)]"

text \<open>
  The inner loop over the patterns for one line: the list of errors, and whether the
  function has returned (at 20 errors).
\<close>

fun scan_patterns :: "string \<Rightarrow> (string \<times> nat) list \<Rightarrow> string list \<Rightarrow> string list \<times> bool" where
  "scan_patterns line [] errors = (errors, False)"
| "scan_patterns line ((pat, n) # ps) errors =
     (if py_in pat line \<or> (n > 3 \<and> py_in (lower pat) (lower line))
      then let err = take_chars 200 (strip line)
           in if err \<noteq> [] \<and> err \<notin> set errors
              then if length (errors @ [err]) \<ge> 20 then (errors @ [err], True)
                   else scan_patterns line ps (errors @ [err])
              else scan_patterns line ps errors
      else scan_patterns line ps errors)"

fun scan_lines :: "string list \<Rightarrow> string list \<Rightarrow> string list" where
  "scan_lines [] errors = errors"
| "scan_lines (line # ls) errors =
     (case scan_patterns line error_patterns errors of
        (errors', True) \<Rightarrow> errors'
      | (errors', False) \<Rightarrow> scan_lines ls errors')"

definition extract_errors :: "string \<Rightarrow> string \<Rightarrow> string list" where
  "extract_errors output ctype = scan_lines (split_on newline output) []"

fun scan_warnings :: "string list \<Rightarrow> string list \<Rightarrow> string list" where
  "scan_warnings [] warnings = warnings"
| "scan_warnings (line # ls) warnings =
     (if py_in ''warning'' (lower line) \<or> py_in ''warn'' (lower line)
      then let warning = take_chars 200 (strip line)
           in if warning \<noteq> [] \<and> warning \<notin> set warnings
              then if length (warnings @ [warning]) \<ge> 10 then warnings @ [warning]
                   else scan_warnings ls (warnings @ [warning])
              else scan_warnings ls warnings
      else scan_warnings ls warnings)"

definition extract_warnings :: "string \<Rightarrow> string list" where
  "extract_warnings output = scan_warnings (split_on newline output) []"

text \<open>\<open>d.get(k, default)\<close> and Python's truth value\<close>

definition dict_get :: "dict \<Rightarrow> string \<Rightarrow> jval \<Rightarrow> jval" where
  "dict_get d k dflt = (case map_of d k of Some v \<Rightarrow> v | None \<Rightarrow> dflt)"

fun j_truthy :: "jval \<Rightarrow> bool" where
  "j_truthy JNull = False"
| "j_truthy (JBool b) = b"
| "j_truthy (JInt n) = (n \<noteq> 0)"
| "j_truthy (JStr s) = (s \<noteq> [])"
| "j_truthy (JList l) = (l \<noteq> [])"

fun j_str :: "jval \<Rightarrow> string" where
  "j_str (JStr s) = s"
| "j_str v = []"

text \<open>
  \<open>_run_check\<close>. \<open>_run_shell_command\<close> raises nothing, so the handler of this
  function is never entered.
\<close>

definition run_check ::
  "shell \<Rightarrow> RalphToolkit \<Rightarrow> world \<Rightarrow> string \<Rightarrow> string \<Rightarrow> BackpressureResult \<times> world" where
  "run_check sh tk w ctype command =
     (case run_shell_command sh tk w command 120 of
        (result, w') \<Rightarrow>
          let output = j_str (dict_get result ''stdout'' (JStr [])) @
                       j_str (dict_get result ''stderr'' (JStr []))
          in (\<lparr>check_type = ctype,
               passed = (j_truthy (dict_get result ''success'' (JBool False)) \<or>
                         dict_get result ''exit_code'' (JInt 1) = JInt 0),
               bp_output = take_chars 5000 output,
               bp_errors = extract_errors output ctype,
               bp_warnings = extract_warnings output\<rparr>, w'))"

text \<open>The signature files are looked up in the working directory.\<close>

definition sig_exists :: "world \<Rightarrow> path \<Rightarrow> string \<Rightarrow> bool" where
  "sig_exists w d name = fs_exists (fs w) (d @ [name])"

definition detect_test_command :: "world \<Rightarrow> path \<Rightarrow> string option" where
  "detect_test_command w d =
     (if sig_exists w d ''pytest.ini'' \<or> sig_exists w d ''pyproject.toml'' then Some ''pytest -v''
      else if sig_exists w d ''setup.py'' then Some ''python -m pytest''
      else if sig_exists w d ''package.json'' then Some ''npm test''
      else if sig_exists w d ''go.mod'' then Some ''go test ./...''
      else if sig_exists w d ''Cargo.toml'' then Some ''cargo test''
      else None)"

definition detect_lint_command :: "world \<Rightarrow> path \<Rightarrow> string option" where
  "detect_lint_command w d =
     (if sig_exists w d ''pyproject.toml'' \<or> sig_exists w d ''.flake8''
      then Some ''ruff check . || flake8 .''
      else if sig_exists w d ''package.json'' then Some ''npm run lint 2>/dev/null || eslint .''
      else if sig_exists w d ''go.mod''
      then Some ''golangci-lint run 2>/dev/null || go vet ./...''
      else None)"

definition detect_typecheck_command :: "world \<Rightarrow> path \<Rightarrow> string option" where
  "detect_typecheck_command w d =
     (if sig_exists w d ''pyproject.toml'' then Some ''mypy . 2>/dev/null || true''
      else if sig_exists w d ''tsconfig.json'' then Some ''tsc --noEmit''
      else None)"

definition detect_build_command :: "world \<Rightarrow> path \<Rightarrow> string option" where
  "detect_build_command w d =
     (if sig_exists w d ''package.json'' then Some ''npm run build''
      else if sig_exists w d ''go.mod'' then Some ''go build ./...''
      else if sig_exists w d ''Cargo.toml'' then Some ''cargo build''
      else None)"

text \<open>\<open>override or detected\<close>, then \<open>if cmd:\<close>\<close>

definition resolve_command :: "string option \<Rightarrow> string option \<Rightarrow> string option" where
  "resolve_command override detected =
     (let cmd = (if truthy override then override else detected)
      in if truthy cmd then cmd else None)"

text \<open>One of the four blocks of \<open>_run_backpressure\<close>\<close>

definition check_block ::
  "shell \<Rightarrow> RalphToolkit \<Rightarrow> bool \<Rightarrow> string \<Rightarrow> string option \<Rightarrow> (world \<Rightarrow> string option)
     \<Rightarrow> BackpressureResult list \<times> world \<Rightarrow> BackpressureResult list \<times> world" where
  "check_block sh tk enabled ctype override detect st =
     (case st of
        (results, w) \<Rightarrow>
          if enabled
          then (case resolve_command override (detect w) of
                  Some cmd \<Rightarrow>
                    (case run_check sh tk w ctype cmd of (r, w') \<Rightarrow> (results @ [r], w'))
                | None \<Rightarrow> (results, w))
          else (results, w))"

definition run_backpressure ::
  "shell \<Rightarrow> path \<Rightarrow> RalphToolkit \<Rightarrow> world \<Rightarrow> RalphTask \<Rightarrow> BackpressureResult list \<times> world" where
  "run_backpressure sh d tk w task =
     (let c = config task
      in check_block sh tk (run_build c) ''build'' (build_command c)
           (\<lambda>w. detect_build_command w d)
           (check_block sh tk (run_typecheck c) ''typecheck'' (typecheck_command c)
              (\<lambda>w. detect_typecheck_command w d)
              (check_block sh tk (run_lint c) ''lint'' (lint_command c)
                 (\<lambda>w. detect_lint_command w d)
                 (check_block sh tk (run_tests c) ''test'' (test_command c)
                    (\<lambda>w. detect_test_command w d) ([], w)))))"

subsection \<open>One iteration\<close>

text \<open>
  What building the context and the model's turn with its tool calls come to, decided
  by the world: building the context or the prompt raises; the call of the model raises
  after the prompt is stored; or the turn returns the prompt, the response, the reasoning,
  the tool calls and the file changes drained from the toolkit.
\<close>

datatype turn =
    ContextRaised string
  | CallRaised string string
  | Replied string string string "ToolCall list" "FileChange list"

record env =
  env_shell :: shell
  env_cwd :: path
  cancel_requested :: "RalphTask \<Rightarrow> bool"
  agent_turn :: "world \<Rightarrow> RalphTask \<Rightarrow> turn \<times> world"

definition run_iteration ::
  "env \<Rightarrow> RalphToolkit \<Rightarrow> CompletionDetector \<Rightarrow> world \<Rightarrow> RalphTask \<Rightarrow> RalphIteration \<times> world" where
  "run_iteration e tk det w task =
     (let iteration = new_RalphIteration (current_iteration task + 1)
      in case agent_turn e w task of
           (ContextRaised msg, w1) \<Rightarrow>
             (iteration_complete IT_FAILED (iteration\<lparr>it_error := Some msg\<rparr>), w1)
         | (CallRaised p msg, w1) \<Rightarrow>
             (iteration_complete IT_FAILED (iteration\<lparr>prompt_sent := p, it_error := Some msg\<rparr>),
              w1)
         | (Replied p response rsn calls changes, w1) \<Rightarrow>
             let iteration = iteration\<lparr>prompt_sent := p, agent_response := response,
                               reasoning := rsn, tool_calls := calls, file_changes := changes\<rparr>;
                 promise_check = check_completion_promise det (agent_response iteration)
                                   (Some (completion_promise (config task)));
                 iteration = iteration\<lparr>completion_promise_found := fst promise_check\<rparr>;
                 iteration = (if fst promise_check
                              then iteration\<lparr>completion_message := snd promise_check\<rparr>
                              else iteration)
             in if run_tests (config task) \<or> run_lint (config task) \<or>
                   run_typecheck (config task)
                then (case run_backpressure (env_shell e)
                             (resolve (env_cwd e) (working_directory (config task))) tk w1 task of
                        (results, w2) \<Rightarrow>
                          (iteration_complete IT_COMPLETED
                             (iteration\<lparr>backpressure_results := results\<rparr>), w2))
                else (iteration_complete IT_COMPLETED iteration, w1))"

subsection \<open>The main loop\<close>

function main_loop ::
  "env \<Rightarrow> RalphToolkit \<Rightarrow> CompletionDetector \<Rightarrow> world \<Rightarrow> RalphTask \<Rightarrow> RalphTask \<times> world" where
  "main_loop e tk det w task =
     (if cancel_requested e task then (cancel task, w)
      else if current_iteration task \<ge> max_iterations (config task) then (timeout task, w)
      else let r = run_iteration e tk det w task;
               task1 = add_iteration (fst r) task;
               cr = check_completion det task1 (fst r);
               ss = should_stop task1 cr
           in if fst ss
              then (if is_complete cr then complete cr (agent_response (fst r)) task1
                    else fail (snd ss) task1, snd r)
              else main_loop e tk det (snd r) task1)"
  by pat_completeness auto
termination
  apply (relation "measure (\<lambda>(e, tk, det, w, task).
           nat (max_iterations (config task) - int (length (iterations task))))")
   apply simp
  apply (auto simp: should_stop_def add_iteration_def Let_def split: if_splits)
  done

text \<open>
  \<open>run_task\<close>. The registry of running tasks and the two callbacks, whose exceptions the
  source swallows, are not modelled; the callbacks of the task runner only log.
\<close>

definition run_task :: "env \<Rightarrow> world \<Rightarrow> RalphTask \<Rightarrow> RalphTask \<times> world" where
  "run_task e w task =
     main_loop e
       (new_RalphToolkit (env_cwd e) (working_directory (config task)) True
          (iteration_timeout_seconds (config task)))
       (new_CompletionDetector (completion_promise (config task))) w (start task)"

declare main_loop.simps [simp del]

section \<open>Properties stated as predicates\<close>

text \<open>
  The counters of a task agree with its list of iterations: the iteration counter is the
  length of the list, the iterations are numbered 1, 2, ... in order, and the two totals
  are the sums of the numbers of tool calls and of file changes.
\<close>

definition task_counts_ok :: "RalphTask \<Rightarrow> bool" where
  "task_counts_ok t =
     (current_iteration t = int (length (iterations t)) \<and>
      map iteration_number (iterations t) = map int [1..<Suc (length (iterations t))] \<and>
      total_tool_calls t = sum_list (map (\<lambda>i. int (length (tool_calls i))) (iterations t)) \<and>
      total_file_changes t =
        sum_list (map (\<lambda>i. int (length (file_changes i))) (iterations t)))"

section \<open>Concrete inputs\<close>

text \<open>A shell whose every command exits at once with status 0, and an empty disk.\<close>

definition null_shell :: shell where
  "null_shell w command d t = (Exited [] [] 0, fs w)"

definition empty_world :: world where
  "empty_world = \<lparr>fs = (\<lambda>p. None), proc_log = []\<rparr>"

text \<open>The model answers every turn with the same text and calls no tool.\<close>

definition fixed_reply_env :: "string \<Rightarrow> env" where
  "fixed_reply_env r =
     \<lparr>env_shell = null_shell, env_cwd = [], cancel_requested = (\<lambda>t. False),
      agent_turn = (\<lambda>w t. (Replied [] r [] [] [], w))\<rparr>"

text \<open>The default configuration with a ceiling \<open>n\<close> and the three default checks off.\<close>

definition unchecked_config :: "int \<Rightarrow> RalphTaskConfig" where
  "unchecked_config n =
     new_RalphTaskConfig\<lparr>max_iterations := n, run_tests := False, run_lint := False,
       run_typecheck := False\<rparr>"

text \<open>The detector and the toolkit that \<open>run_task\<close> builds for these tasks.\<close>

definition default_detector :: CompletionDetector where
  "default_detector = new_CompletionDetector default_promise"

definition default_toolkit :: RalphToolkit where
  "default_toolkit = new_RalphToolkit [] ''.'' True 300"

text \<open>
  Three answers of the model: one with no completion signal, one with three of the
  phrases of the progress heuristic and no promise, one with the promise.
\<close>

definition plain_reply :: string where
  "plain_reply = ''working on it''"

definition phrases_reply :: string where
  "phrases_reply = ''No changes needed: all requirements met, nothing left to do.''"

definition promise_reply :: string where
  "promise_reply = ''Done. <promise>COMPLETE</promise>''"

text \<open>A task as the caller creates it, with the ceiling \<open>n\<close>.\<close>

definition fresh_task :: "int \<Rightarrow> RalphTask" where
  "fresh_task n = new_RalphTask ''fix the bug'' [] (unchecked_config n)"



definition phrases_iteration :: RalphIteration where
  "phrases_iteration =
     (new_RalphIteration 1)\<lparr>it_status := IT_COMPLETED, agent_response := phrases_reply\<rparr>"

text \<open>A running task whose only enabled check is the build, with an explicit command.\<close>

definition build_only_task :: RalphTask where
  "build_only_task =
     start (new_RalphTask ''fix the bug'' []
              ((unchecked_config 5)\<lparr>run_build := True, build_command := Some ''make''\<rparr>))"

text \<open>
  A toolkit on the working directory \<open>/srv/app\<close>, on a disk that holds this directory
  and nothing else. The tools that are not modelled return an empty dictionary.
\<close>

definition app_toolkit :: RalphToolkit where
  "app_toolkit = new_RalphToolkit [] ''/srv/app'' True 60"

definition app_world :: world where
  "app_world =
     \<lparr>fs = (Map.empty([''srv''] \<mapsto> Dir, [''srv'', ''app''] \<mapsto> Dir)), proc_log = []\<rparr>"

definition no_other_tools :: "string \<Rightarrow> tool_method" where
  "no_other_tools name tk w args = (Inr [], tk, w)"

text \<open>A shell whose every command is still running at the timeout, having written output.\<close>

definition hanging_shell :: shell where
  "hanging_shell w command d t = (TimedOut ''partial output'' [], fs w)"

text \<open>\<open>write_file\<close> with a path into the sibling directory \<open>/srv/app2\<close>.\<close>

definition escape_call :: "ToolCall \<times> RalphToolkit \<times> world" where
  "escape_call =
     execute_tool null_shell no_other_tools app_toolkit app_world ''write_file''
       [(''path'', JStr ''../app2/x.txt''), (''content'', JStr ''hi'')] 0 0"

text \<open>\<open>read_file\<close> of a file that does not exist.\<close>

definition missing_read :: "ToolCall \<times> RalphToolkit \<times> world" where
  "missing_read =
     execute_tool null_shell no_other_tools app_toolkit app_world ''read_file''
       [(''path'', JStr ''nope.txt'')] 0 0"

text \<open>A text with a carriage return, the same text with a line feed, and two writes.\<close>

definition cr_text :: string where
  "cr_text = [CHR ''a'', carriage_return, CHR ''b'']"

definition lf_text :: string where
  "lf_text = [CHR ''a'', newline, CHR ''b'']"

definition cr_written :: "(exn + dict) \<times> RalphToolkit \<times> world" where
  "cr_written = tool_write_file app_toolkit app_world ''notes.txt'' cr_text"

definition plain_written :: "(exn + dict) \<times> RalphToolkit \<times> world" where
  "plain_written = tool_write_file app_toolkit app_world ''notes.txt'' ''hi''"

section \<open>The counters of a task\<close>

lemma run_iteration_number:
  "iteration_number (fst (run_iteration e tk det w t)) = current_iteration t + 1"
  by (simp add: run_iteration_def new_RalphIteration_def iteration_complete_def Let_def
      split: prod.splits turn.splits)

lemma add_iteration_counts_ok:
  assumes "task_counts_ok t" and "iteration_number it = current_iteration t + 1"
  shows "task_counts_ok (add_iteration it t)"
  using assms by (simp add: task_counts_ok_def add_iteration_def)

lemma counts_ok_status [simp]:
  "task_counts_ok (cancel t) = task_counts_ok t"
  "task_counts_ok (timeout t) = task_counts_ok t"
  "task_counts_ok (start t) = task_counts_ok t"
  "task_counts_ok (fail m t) = task_counts_ok t"
  "task_counts_ok (complete cr out t) = task_counts_ok t"
  by (simp_all add: task_counts_ok_def cancel_def timeout_def start_def fail_def complete_def)

lemma main_loop_counts_ok:
  "task_counts_ok t \<Longrightarrow> task_counts_ok (fst (main_loop e tk det w t))"
proof (induction e tk det w t rule: main_loop.induct)
  case (1 e tk det w task)
  show ?case
  proof (cases "cancel_requested e task \<or> current_iteration task \<ge> max_iterations (config task)")
    case True
    then show ?thesis using "1.prems" by (auto simp: main_loop.simps)
  next
    case False
    define r where "r = run_iteration e tk det w task"
    define task1 where "task1 = add_iteration (fst r) task"
    have ok1: "task_counts_ok task1"
      unfolding task1_def r_def
      by (rule add_iteration_counts_ok [OF "1.prems" run_iteration_number])
    show ?thesis
    proof (cases "fst (should_stop task1 (check_completion det task1 (fst r)))")
      case True
      then show ?thesis using False ok1
        by (subst main_loop.simps) (simp add: Let_def r_def [symmetric] task1_def [symmetric])
    next
      case stop: False
      have "task_counts_ok (fst (main_loop e tk det (snd r) task1))"
        using "1.IH" [OF _ _ r_def task1_def refl refl] False stop ok1 by simp
      then show ?thesis using False stop
        by (subst main_loop.simps) (simp add: Let_def r_def [symmetric] task1_def [symmetric])
    qed
  qed
qed

text \<open>
  Claim C8. After \<open>add_iteration\<close> the iteration counter is the length of the list of
  iterations, whatever the task and the iteration. The loop numbers each iteration with
  the counter plus one, so that adding the iteration it has run keeps the numbering by
  position and the two totals; a task as it is created has them, and so has the task
  that \<open>run_task\<close> returns.
\<close>

theorem add_iteration_counts:
  "current_iteration (add_iteration it t) = int (length (iterations (add_iteration it t))) \<and>
   (task_counts_ok t \<longrightarrow> task_counts_ok (add_iteration (fst (run_iteration e tk det w t)) t)) \<and>
   task_counts_ok (fst (run_task e w (new_RalphTask p d c)))"
proof (intro conjI impI)
  show "current_iteration (add_iteration it t) = int (length (iterations (add_iteration it t)))"
    by (simp add: add_iteration_def)
  show "task_counts_ok (add_iteration (fst (run_iteration e tk det w t)) t)" if "task_counts_ok t"
    by (rule add_iteration_counts_ok [OF that run_iteration_number])
  have "task_counts_ok (new_RalphTask p d c)"
    by (simp add: task_counts_ok_def new_RalphTask_def)
  then show "task_counts_ok (fst (run_task e w (new_RalphTask p d c)))"
    unfolding run_task_def by (intro main_loop_counts_ok) simp
qed

theorem add_iteration_counts_witness:
  "task_counts_ok (new_RalphTask ''fix the bug'' [] (unchecked_config 3)) \<and>
   task_counts_ok
     (add_iteration
        (fst (run_iteration (fixed_reply_env ''working on it'')
                (new_RalphToolkit [] ''.'' True 300) (new_CompletionDetector default_promise)
                empty_world (new_RalphTask ''fix the bug'' [] (unchecked_config 3))))
        (new_RalphTask ''fix the bug'' [] (unchecked_config 3)))"
  using add_iteration_counts [of undefined "new_RalphTask ''fix the bug'' [] (unchecked_config 3)"
      "fixed_reply_env ''working on it''" "new_RalphToolkit [] ''.'' True 300"
      "new_CompletionDetector default_promise" empty_world "''fix the bug''" "[]"
      "unchecked_config 3"]
  by (simp add: task_counts_ok_def new_RalphTask_def)

section \<open>Steps of the main loop\<close>

lemma main_loop_head_stops:
  "cancel_requested e task \<Longrightarrow> main_loop e tk det w task = (cancel task, w)"
  "\<not> cancel_requested e task \<Longrightarrow> current_iteration task \<ge> max_iterations (config task) \<Longrightarrow>
     main_loop e tk det w task = (timeout task, w)"
  by (simp_all add: main_loop.simps)

lemma main_loop_runs:
  assumes "\<not> cancel_requested e task" and "current_iteration task < max_iterations (config task)"
  shows "main_loop e tk det w task =
     (let r = run_iteration e tk det w task;
          task1 = add_iteration (fst r) task;
          cr = check_completion det task1 (fst r);
          ss = should_stop task1 cr
      in if fst ss
         then (if is_complete cr then complete cr (agent_response (fst r)) task1
               else fail (snd ss) task1, snd r)
         else main_loop e tk det (snd r) task1)"
  using assms by (subst main_loop.simps) simp

lemma config_add_iteration [simp]: "config (add_iteration it t) = config t"
  by (simp add: add_iteration_def)

lemma iterations_add_iteration [simp]: "iterations (add_iteration it t) = iterations t @ [it]"
  by (simp add: add_iteration_def)

lemma current_add_iteration [simp]:
  "current_iteration (add_iteration it t) = int (length (iterations t)) + 1"
  by (simp add: add_iteration_def)

lemma should_stop_complete: "is_complete cr \<Longrightarrow> should_stop task cr = (True, reason cr)"
  by (simp add: should_stop_def)

lemma should_stop_ceiling:
  "\<not> is_complete cr \<Longrightarrow> current_iteration task \<ge> max_iterations (config task) \<Longrightarrow>
   should_stop task cr =
     (True, ''Max iterations ('' @ str_int (max_iterations (config task)) @ '') reached'')"
  by (simp add: should_stop_def)


lemma status_fields_kept [simp]:
  "iterations (fail m t) = iterations t" "status (fail m t) = FAILED" "error (fail m t) = Some m"
  "completion_result (fail m t) = completion_result t"
  "iterations (complete cr out t) = iterations t" "status (complete cr out t) = COMPLETED"
  "completion_result (complete cr out t) = Some cr"
  "completion_result (add_iteration it t) = completion_result t"
  "completion_result (start t) = completion_result t"
  by (simp_all add: fail_def complete_def add_iteration_def start_def)

text \<open>When an iteration that is not complete reaches the ceiling, the task is failed.\<close>

lemma ceiling_reached_fails:
  assumes "\<not> cancel_requested e task"
    and "current_iteration task < max_iterations (config task)"
    and "\<not> is_complete (check_completion det (add_iteration (fst (run_iteration e tk det w task)) task)
                          (fst (run_iteration e tk det w task)))"
    and "max_iterations (config task) \<le> int (length (iterations task)) + 1"
  shows "main_loop e tk det w task =
    (fail (''Max iterations ('' @ str_int (max_iterations (config task)) @ '') reached'')
       (add_iteration (fst (run_iteration e tk det w task)) task),
     snd (run_iteration e tk det w task))"
proof -
  define it where "it = fst (run_iteration e tk det w task)"
  define task1 where "task1 = add_iteration it task"
  define cr where "cr = check_completion det task1 it"
  have nc: "\<not> is_complete cr" using assms(3) by (simp add: cr_def task1_def it_def)
  have "current_iteration task1 \<ge> max_iterations (config task1)"
    using assms(4) by (simp add: task1_def)
  from should_stop_ceiling [OF nc this]
  have "main_loop e tk det w task =
    (fail (''Max iterations ('' @ str_int (max_iterations (config task1)) @ '') reached'')
       task1, snd (run_iteration e tk det w task))"
    using nc
    by (simp add: main_loop_runs [OF assms(1,2)] Let_def it_def [symmetric]
        task1_def [symmetric] cr_def [symmetric])
  then show ?thesis by (simp add: task1_def it_def)
qed


text \<open>The iteration of a turn that answers with a fixed text, all default checks being off.\<close>

lemma fixed_reply_iteration:
  assumes "\<not> run_tests (config task)" "\<not> run_lint (config task)" "\<not> run_typecheck (config task)"
  shows "agent_response (fst (run_iteration (fixed_reply_env r) tk det w task)) = r"
    and "it_error (fst (run_iteration (fixed_reply_env r) tk det w task)) = None"
    and "tool_calls (fst (run_iteration (fixed_reply_env r) tk det w task)) = []"
    and "file_changes (fst (run_iteration (fixed_reply_env r) tk det w task)) = []"
    and "backpressure_results (fst (run_iteration (fixed_reply_env r) tk det w task)) = []"
    and "snd (run_iteration (fixed_reply_env r) tk det w task) = w"
  using assms
  by (simp_all add: run_iteration_def fixed_reply_env_def Let_def new_RalphIteration_def
      iteration_complete_def)

lemma unchecked_config_simps [simp]:
  "\<not> run_tests (unchecked_config n)" "\<not> run_lint (unchecked_config n)"
  "\<not> run_typecheck (unchecked_config n)" "\<not> run_build (unchecked_config n)"
  "max_iterations (unchecked_config n) = n"
  "completion_promise (unchecked_config n) = default_promise"
  "working_directory (unchecked_config n) = ''.''"
  "iteration_timeout_seconds (unchecked_config n) = 300"
  by (simp_all add: unchecked_config_def new_RalphTaskConfig_def)

lemma fresh_task_simps [simp]:
  "config (start (fresh_task n)) = unchecked_config n"
  "iterations (start (fresh_task n)) = []"
  "current_iteration (start (fresh_task n)) = 0"
  "config (fresh_task n) = unchecked_config n"
  by (simp_all add: fresh_task_def start_def new_RalphTask_def)

lemma fixed_reply_never_cancelled [simp]: "\<not> cancel_requested (fixed_reply_env r) t"
  by (simp add: fixed_reply_env_def)

lemma plain_reply_no_promise:
  "check_completion_promise default_detector plain_reply (Some default_promise) = (False, None)"
  by code_simp

lemma plain_reply_no_phrase:
  "add_phrases (2 / 10) no_change_phrases (lower plain_reply)
     (add_phrases (1 / 10) verification_phrases (lower plain_reply)
        (add_phrases (15 / 100) completion_phrases (lower plain_reply) 0)) = 0"
  by code_simp

lemma plain_reply_not_complete:
  assumes "agent_response it = plain_reply" and "tool_calls it = []"
    and "completion_promise (config task) = default_promise"
  shows "\<not> is_complete (check_completion default_detector task it)"
  using assms plain_reply_no_promise plain_reply_no_phrase
  by (simp add: check_completion_def analyze_progress_def Let_def new_CompletionResult_def
      min_def)

lemma plain_step:
  assumes "config task = unchecked_config n"
  shows "\<not> is_complete
           (check_completion default_detector
              (add_iteration (fst (run_iteration (fixed_reply_env plain_reply) tk default_detector w task)) task)
              (fst (run_iteration (fixed_reply_env plain_reply) tk default_detector w task)))"
  by (rule plain_reply_not_complete) (simp_all add: fixed_reply_iteration assms)

lemma run_iteration_flag_fixed:
  assumes "\<not> run_tests (config task)" "\<not> run_lint (config task)" "\<not> run_typecheck (config task)"
  shows "completion_promise_found (fst (run_iteration (fixed_reply_env r) tk det w task)) =
         fst (check_completion_promise det r (Some (completion_promise (config task))))"
  using assms
  by (simp add: run_iteration_def fixed_reply_env_def Let_def new_RalphIteration_def
      iteration_complete_def)



section \<open>The completion promise\<close>

lemma run_iteration_flag:
  assumes "completion_promise_found (fst (run_iteration e tk det w task))"
  shows "fst (check_completion_promise det (agent_response (fst (run_iteration e tk det w task)))
                (Some (completion_promise (config task))))"
  using assms
  by (auto simp: run_iteration_def new_RalphIteration_def iteration_complete_def Let_def
      split: prod.splits turn.splits if_splits)

lemma check_completion_promise_found:
  assumes "fst (check_completion_promise det (agent_response it)
                  (Some (completion_promise (config task))))"
  shows "is_complete (check_completion det task it) \<and>
         confidence (check_completion det task it) = 1 \<and>
         promise_detected (check_completion det task it)"
  using assms by (simp add: check_completion_def Let_def new_CompletionResult_def)

lemma promise_reply_found:
  "fst (check_completion_promise default_detector promise_reply (Some default_promise))"
  by code_simp

text \<open>
  Claim C3. When the loop runs an iteration (no cancellation is requested and the ceiling
  is not reached) and the iteration's \<open>completion_promise_found\<close> flag is set, the loop
  ends with this iteration as the last one recorded, the status of the task is
  \<open>completed\<close>, and the stored completion result has \<open>is_complete\<close> and confidence 1.
\<close>

theorem promise_found_completes:
  assumes "\<not> cancel_requested e task"
    and "current_iteration task < max_iterations (config task)"
    and "completion_promise_found (fst (run_iteration e tk det w task))"
  shows "status (fst (main_loop e tk det w task)) = COMPLETED \<and>
         iterations (fst (main_loop e tk det w task)) =
           iterations task @ [fst (run_iteration e tk det w task)] \<and>
         (\<exists>cr. completion_result (fst (main_loop e tk det w task)) = Some cr \<and>
               is_complete cr \<and> confidence cr = 1)"
proof -
  define it where "it = fst (run_iteration e tk det w task)"
  define task1 where "task1 = add_iteration it task"
  define cr where "cr = check_completion det task1 it"
  have "fst (check_completion_promise det (agent_response it)
               (Some (completion_promise (config task1))))"
    using run_iteration_flag [OF assms(3)] by (simp add: it_def task1_def)
  from check_completion_promise_found [OF this]
  have cr: "is_complete cr" "confidence cr = 1" by (simp_all add: cr_def)
  have "main_loop e tk det w task =
          (complete cr (agent_response it) task1, snd (run_iteration e tk det w task))"
    using cr(1) should_stop_complete [OF cr(1), of task1]
    by (simp add: main_loop_runs [OF assms(1,2)] Let_def it_def [symmetric]
        task1_def [symmetric] cr_def [symmetric])
  then show ?thesis
    using cr by (simp add: task1_def it_def)
qed

text \<open>
  The theorem at a task with ceiling 5 whose first answer holds the default promise.
\<close>

theorem promise_found_completes_witness:
  "completion_promise_found
     (fst (run_iteration (fixed_reply_env promise_reply) default_toolkit default_detector
             empty_world (start (fresh_task 5)))) \<and>
   status (fst (main_loop (fixed_reply_env promise_reply) default_toolkit default_detector
                  empty_world (start (fresh_task 5)))) = COMPLETED \<and>
   length (iterations (fst (main_loop (fixed_reply_env promise_reply) default_toolkit
                              default_detector empty_world (start (fresh_task 5))))) = 1 \<and>
   (\<exists>cr. completion_result
           (fst (main_loop (fixed_reply_env promise_reply) default_toolkit default_detector
                   empty_world (start (fresh_task 5)))) = Some cr \<and>
         is_complete cr \<and> confidence cr = 1)"
proof -
  have found: "completion_promise_found
     (fst (run_iteration (fixed_reply_env promise_reply) default_toolkit default_detector
             empty_world (start (fresh_task 5))))"
    using promise_reply_found by (simp add: run_iteration_flag_fixed)
  have below: "current_iteration (start (fresh_task 5)) <
               max_iterations (config (start (fresh_task 5)))"
    by simp
  show ?thesis
    using promise_found_completes [OF fixed_reply_never_cancelled below found] found
    by simp
qed

section \<open>The ceiling on iterations\<close>

lemma should_stop_continue_below:
  assumes "\<not> fst (should_stop task cr)"
  shows "current_iteration task < max_iterations (config task)"
  using assms by (simp add: should_stop_def split: if_splits)

text \<open>Once the loop runs an iteration, no run ends with the status \<open>timeout\<close>.\<close>

lemma timeout_unreachable_after_iteration:
  "current_iteration task < max_iterations (config task) \<Longrightarrow>
   status (fst (main_loop e tk det w task)) \<noteq> TIMEOUT"
proof (induction e tk det w task rule: main_loop.induct)
  case (1 e tk det w task)
  show ?case
  proof (cases "cancel_requested e task")
    case True
    then show ?thesis by (simp add: main_loop_head_stops(1) cancel_def)
  next
    case False
    define r where "r = run_iteration e tk det w task"
    define task1 where "task1 = add_iteration (fst r) task"
    define cr where "cr = check_completion det task1 (fst r)"
    note unfold = main_loop_runs [OF False "1.prems"]
    show ?thesis
    proof (cases "fst (should_stop task1 cr)")
      case True
      then show ?thesis
        by (simp add: unfold Let_def r_def [symmetric] task1_def [symmetric] cr_def [symmetric])
    next
      case stop: False
      from should_stop_continue_below [OF stop]
      have below: "current_iteration task1 < max_iterations (config task1)" .
      have "status (fst (main_loop e tk det (snd r) task1)) \<noteq> TIMEOUT"
        using "1.IH" [OF _ _ r_def task1_def cr_def refl] False "1.prems" stop below
        by simp
      then show ?thesis using stop
        by (simp add: unfold Let_def r_def [symmetric] task1_def [symmetric] cr_def [symmetric])
    qed
  qed
qed

text \<open>
  Claim C2, at the input where the code departs from it: a task with \<open>max_iterations = 1\<close>
  and all checks off, whose single answer has no completion signal. The loop stops after
  this one iteration, but \<open>should_stop\<close> reports the ceiling first and the task is marked
  \<open>failed\<close> with the error \<open>Max iterations (1) reached\<close>, not \<open>timeout\<close>. The
  check at the head of the loop marks \<open>timeout\<close>, as it does for a ceiling of 0; after
  an iteration it is never reached.
\<close>

theorem max_iterations_one_is_failed:
  "status (fst (run_task (fixed_reply_env plain_reply) empty_world (fresh_task 1))) = FAILED \<and>
   error (fst (run_task (fixed_reply_env plain_reply) empty_world (fresh_task 1))) =
     Some ''Max iterations (1) reached'' \<and>
   map agent_response
     (iterations (fst (run_task (fixed_reply_env plain_reply) empty_world (fresh_task 1)))) =
     [plain_reply] \<and>
   completion_result (fst (run_task (fixed_reply_env plain_reply) empty_world (fresh_task 1))) =
     None \<and>
   status (fst (run_task (fixed_reply_env plain_reply) empty_world (fresh_task 0))) = TIMEOUT"
proof -
  let ?e = "fixed_reply_env plain_reply"
  let ?tk = "new_RalphToolkit (env_cwd ?e) ''.'' True 300"
  let ?t0 = "start (fresh_task 1)"
  let ?it = "fst (run_iteration ?e ?tk default_detector empty_world ?t0)"
  have "main_loop ?e ?tk default_detector empty_world ?t0 =
          (fail (''Max iterations ('' @ str_int (max_iterations (config ?t0)) @ '') reached'')
             (add_iteration ?it ?t0),
           snd (run_iteration ?e ?tk default_detector empty_world ?t0))"
    by (rule ceiling_reached_fails) (simp_all add: plain_step [of _ 1])
  moreover have "str_int 1 = ''1''" by code_simp
  ultimately have "fst (run_task ?e empty_world (fresh_task 1)) =
      fail ''Max iterations (1) reached'' (add_iteration ?it ?t0)"
    by (simp add: run_task_def default_detector_def)
  moreover have "completion_result (fresh_task 1) = None"
    by (simp add: fresh_task_def new_RalphTask_def)
  moreover have "main_loop ?e ?tk default_detector empty_world (start (fresh_task 0)) =
      (timeout (start (fresh_task 0)), empty_world)"
    by (rule main_loop_head_stops(2)) simp_all
  then have "status (fst (run_task ?e empty_world (fresh_task 0))) = TIMEOUT"
    by (simp add: run_task_def default_detector_def timeout_def)
  ultimately show ?thesis
    by (simp add: fixed_reply_iteration)
qed

section \<open>The stuck loop\<close>

text \<open>
  The slice \<open>[:500]\<close> counts characters. On ASCII text it is the first 500 bytes; on
  other text it is not: 300 letters of two bytes each, followed by a digit, are 301
  characters, and two such answers with different digits have different slices.
\<close>

lemma take_chars_ascii:
  "list_all (\<lambda>c. \<not> is_continuation c) s \<Longrightarrow> take_chars n s = take n s"
  by (induction s arbitrary: n) (auto split: nat.splits)

lemma accent_bytes: "\<not> is_continuation (CHR 0xC3)" "is_continuation (CHR 0xA9)"
  by (simp_all add: is_continuation_def)

lemma take_chars_accented:
  "take_chars (n + k) (concat (replicate n [CHR 0xC3, CHR 0xA9]) @ s) =
     concat (replicate n [CHR 0xC3, CHR 0xA9]) @ take_chars k s"
  by (induction n) (simp_all add: accent_bytes)

lemma accented_answers_differ:
  "take_chars 500 (concat (replicate 300 [CHR 0xC3, CHR 0xA9]) @ ''1'') \<noteq>
   take_chars 500 (concat (replicate 300 [CHR 0xC3, CHR 0xA9]) @ ''2'')"
proof -
  have "take_chars (300 + 200) (concat (replicate 300 [CHR 0xC3, CHR 0xA9]) @ s) =
        concat (replicate 300 [CHR 0xC3, CHR 0xA9]) @ take_chars 200 s" for s
    by (rule take_chars_accented)
  moreover have "take_chars 200 ''1'' = ''1''" "take_chars 200 ''2'' = ''2''"
    by (simp_all add: is_continuation_def)
  ultimately show ?thesis by simp
qed

text \<open>Answers that differ within their first 500 characters do not stop the loop.\<close>

lemma differing_answers_continue:
  assumes "\<not> is_complete cr"
    and "current_iteration task < max_iterations (config task)"
    and "length (iterations task) < 5"
    and "iterations task = xs @ [a, b, c]"
    and "take_chars 500 (agent_response a) \<noteq> take_chars 500 (agent_response c)"
  shows "should_stop task cr = (False, [])"
proof -
  have "last_n 3 (iterations task) = [a, b, c]" by (simp add: assms(4) last_n_def)
  moreover have "length (remdups [x, y, z]) \<noteq> 1" if "x \<noteq> z" for x y z :: string
    using that by auto
  ultimately show ?thesis
    using assms(1,2,3,5) by (simp add: should_stop_def)
qed




section \<open>Completion without backpressure results\<close>

lemma phrases_reply_no_promise:
  "check_completion_promise default_detector phrases_reply (Some default_promise) = (False, None)"
  by code_simp

lemma phrases_reply_sum:
  "add_phrases (2 / 10) no_change_phrases (lower phrases_reply)
     (add_phrases (1 / 10) verification_phrases (lower phrases_reply)
        (add_phrases (15 / 100) completion_phrases (lower phrases_reply) 0)) = 6 / 10"
  by code_simp

lemma analyze_progress_capped: "snd (analyze_progress task it) \<le> 7 / 10"
  by (simp add: analyze_progress_def Let_def)

lemma check_completion_unpromised:
  assumes "\<not> promise_detected (check_completion det task it)"
  shows "all_tests_passed (check_completion det task it) =
           fst (check_backpressure (backpressure_results it))"
    and "confidence (check_completion det task it) \<le> 7 / 10"
  using assms analyze_progress_capped [of task it]
  by (auto simp: check_completion_def Let_def new_CompletionResult_def split: if_splits)

text \<open>The completion check of an iteration that answers the phrases, with nothing else.\<close>

lemma phrases_reply_complete:
  assumes "agent_response it = phrases_reply" and "tool_calls it = []" and "it_error it = None"
    and "backpressure_results it = []" and "length (iterations task) < 2"
    and "completion_promise (config task) = default_promise"
  shows "is_complete (check_completion default_detector task it)"
    and "\<not> promise_detected (check_completion default_detector task it)"
    and "all_tests_passed (check_completion default_detector task it)"
    and "confidence (check_completion default_detector task it) = 6 / 10"
  using assms phrases_reply_no_promise phrases_reply_sum
  by (simp_all add: check_completion_def analyze_progress_def Let_def new_CompletionResult_def
      check_backpressure_def check_for_errors_def truthy_def)

text \<open>
  Claim C10. \<open>_check_backpressure\<close> reports an empty list of results as all passed. So
  an iteration without backpressure results and without the promise has
  \<open>all_tests_passed\<close> set, and without the promise the confidence is at most 0.7. A task
  with all four checks off whose first answer holds three phrases of the progress
  heuristic and no promise ends with status \<open>completed\<close>, with a confidence between 0.5
  and 0.7.
\<close>

theorem vacuous_backpressure_completion:
  "fst (check_backpressure []) \<and>
   (backpressure_results it = [] \<longrightarrow> \<not> promise_detected (check_completion det task it) \<longrightarrow>
      all_tests_passed (check_completion det task it)) \<and>
   (\<not> promise_detected (check_completion det task it) \<longrightarrow>
      confidence (check_completion det task it) \<le> 7 / 10) \<and>
   \<not> (run_tests (config (fresh_task 5)) \<or> run_lint (config (fresh_task 5)) \<or>
       run_typecheck (config (fresh_task 5)) \<or> run_build (config (fresh_task 5))) \<and>
   status (fst (run_task (fixed_reply_env phrases_reply) empty_world (fresh_task 5))) = COMPLETED \<and>
   (\<exists>cr. completion_result
           (fst (run_task (fixed_reply_env phrases_reply) empty_world (fresh_task 5))) = Some cr \<and>
         \<not> promise_detected cr \<and> all_tests_passed cr \<and>
         1 / 2 \<le> confidence cr \<and> confidence cr \<le> 7 / 10)"
proof -
  let ?e = "fixed_reply_env phrases_reply"
  let ?tk = "new_RalphToolkit (env_cwd ?e) ''.'' True 300"
  let ?t0 = "start (fresh_task 5)"
  let ?it = "fst (run_iteration ?e ?tk default_detector empty_world ?t0)"
  let ?cr = "check_completion default_detector (add_iteration ?it ?t0) ?it"
  have cr: "is_complete ?cr" "\<not> promise_detected ?cr" "all_tests_passed ?cr"
    "confidence ?cr = 6 / 10"
    by (rule phrases_reply_complete; simp add: fixed_reply_iteration)+
  have "main_loop ?e ?tk default_detector empty_world ?t0 =
          (complete ?cr (agent_response ?it) (add_iteration ?it ?t0),
           snd (run_iteration ?e ?tk default_detector empty_world ?t0))"
    using cr(1) should_stop_complete [OF cr(1), of "add_iteration ?it ?t0"]
    by (simp add: main_loop_runs Let_def)
  then have run: "fst (run_task ?e empty_world (fresh_task 5)) =
                  complete ?cr (agent_response ?it) (add_iteration ?it ?t0)"
    by (simp add: run_task_def default_detector_def)
  have "fst (check_backpressure [])" by (simp add: check_backpressure_def)
  moreover have "all_tests_passed (check_completion det task it)"
    if "backpressure_results it = []" "\<not> promise_detected (check_completion det task it)"
    using check_completion_unpromised(1) [OF that(2)] that(1)
    by (simp add: check_backpressure_def)
  moreover have "confidence (check_completion det task it) \<le> 7 / 10"
    if "\<not> promise_detected (check_completion det task it)"
    by (rule check_completion_unpromised(2) [OF that])
  ultimately show ?thesis
    using cr by (simp add: run)
qed

text \<open>The two implications at an iteration that answers the three phrases.\<close>

theorem vacuous_backpressure_completion_witness:
  "backpressure_results phrases_iteration = [] \<and>
   \<not> promise_detected (check_completion default_detector (fresh_task 5) phrases_iteration) \<and>
   all_tests_passed (check_completion default_detector (fresh_task 5) phrases_iteration) \<and>
   confidence (check_completion default_detector (fresh_task 5) phrases_iteration) \<le> 7 / 10"
proof -
  have a: "backpressure_results phrases_iteration = []"
    by (simp add: phrases_iteration_def new_RalphIteration_def)
  have b: "\<not> promise_detected (check_completion default_detector (fresh_task 5) phrases_iteration)"
    by (rule phrases_reply_complete(2))
       (simp_all add: phrases_iteration_def new_RalphIteration_def fresh_task_def
          new_RalphTask_def)
  show ?thesis
    using vacuous_backpressure_completion [of phrases_iteration default_detector "fresh_task 5"] a b
    by simp
qed

section \<open>The gate of the backpressure checks\<close>

text \<open>
  \<open>_run_iteration\<close> enters \<open>_run_backpressure\<close> only if one of \<open>run_tests\<close>,
  \<open>run_lint\<close> and \<open>run_typecheck\<close> is set: \<open>run_build\<close> is not in the condition.
\<close>

lemma gate_ignores_run_build:
  assumes "\<not> run_tests (config task)" "\<not> run_lint (config task)" "\<not> run_typecheck (config task)"
  shows "backpressure_results (fst (run_iteration e tk det w task)) = []"
  using assms
  by (simp add: run_iteration_def new_RalphIteration_def iteration_complete_def Let_def
      split: prod.splits turn.splits)

text \<open>The check types that one block of \<open>_run_backpressure\<close> adds.\<close>

lemma check_block_types:
  "map check_type (fst (check_block sh tk enabled ctype override detect st)) =
     map check_type (fst st) @
       (if enabled \<and> resolve_command override (detect (snd st)) \<noteq> None then [ctype] else [])"
  by (cases st)
     (auto simp: check_block_def run_check_def Let_def split: option.splits prod.splits)

lemma resolve_command_override:
  "truthy override \<Longrightarrow> resolve_command override detected \<noteq> None"
  by (auto simp: resolve_command_def truthy_def split: option.splits)

text \<open>Inside \<open>_run_backpressure\<close> a disabled check is not run.\<close>

lemma run_backpressure_disabled:
  "\<not> run_tests (config task) \<Longrightarrow>
     ''test'' \<notin> set (map check_type (fst (run_backpressure sh d tk w task)))"
  "\<not> run_lint (config task) \<Longrightarrow>
     ''lint'' \<notin> set (map check_type (fst (run_backpressure sh d tk w task)))"
  "\<not> run_typecheck (config task) \<Longrightarrow>
     ''typecheck'' \<notin> set (map check_type (fst (run_backpressure sh d tk w task)))"
  "\<not> run_build (config task) \<Longrightarrow>
     ''build'' \<notin> set (map check_type (fst (run_backpressure sh d tk w task)))"
  by (simp_all add: run_backpressure_def Let_def check_block_types)

text \<open>Inside \<open>_run_backpressure\<close> an enabled check with an explicit command is run.\<close>

lemma run_backpressure_enabled:
  "run_tests (config task) \<Longrightarrow> truthy (test_command (config task)) \<Longrightarrow>
     ''test'' \<in> set (map check_type (fst (run_backpressure sh d tk w task)))"
  "run_lint (config task) \<Longrightarrow> truthy (lint_command (config task)) \<Longrightarrow>
     ''lint'' \<in> set (map check_type (fst (run_backpressure sh d tk w task)))"
  "run_typecheck (config task) \<Longrightarrow> truthy (typecheck_command (config task)) \<Longrightarrow>
     ''typecheck'' \<in> set (map check_type (fst (run_backpressure sh d tk w task)))"
  "run_build (config task) \<Longrightarrow> truthy (build_command (config task)) \<Longrightarrow>
     ''build'' \<in> set (map check_type (fst (run_backpressure sh d tk w task)))"
  by (simp_all add: run_backpressure_def Let_def check_block_types resolve_command_override)

text \<open>
  When the turn of the model returns and the gate is open, the iteration carries the
  results of \<open>_run_backpressure\<close>.
\<close>

lemma open_gate_attaches_results:
  assumes "agent_turn e w task = (Replied p r rsn calls changes, w1)"
    and "run_tests (config task) \<or> run_lint (config task) \<or> run_typecheck (config task)"
  shows "backpressure_results (fst (run_iteration e tk det w task)) =
         fst (run_backpressure (env_shell e)
                (resolve (env_cwd e) (working_directory (config task))) tk w1 task)"
  using assms
  by (auto simp: run_iteration_def iteration_complete_def Let_def split: prod.splits)

text \<open>
  Claim C4, at the input where the code departs from it: the build check alone is enabled
  and its command is given. The turn of the model returns, and the iteration has no
  backpressure result and no process is spawned. \<open>_run_backpressure\<close> itself, on the
  same task, runs the build command and returns a result of type \<open>build\<close>.
\<close>

theorem build_only_check_skipped:
  "run_build (config build_only_task) \<and>
   resolve_command (build_command (config build_only_task))
     (detect_build_command empty_world []) = Some ''make'' \<and>
   backpressure_results
     (fst (run_iteration (fixed_reply_env plain_reply) default_toolkit default_detector empty_world build_only_task)) = [] \<and>
   proc_log
     (snd (run_iteration (fixed_reply_env plain_reply) default_toolkit default_detector empty_world build_only_task)) = [] \<and>
   map check_type
     (fst (run_backpressure null_shell [] default_toolkit empty_world
             build_only_task)) = [''build''] \<and>
   proc_log
     (snd (run_backpressure null_shell [] default_toolkit empty_world
             build_only_task)) = [Spawned ''make'' []]"
proof -
  have cfg: "config build_only_task =
      (unchecked_config 5)\<lparr>run_build := True, build_command := Some ''make''\<rparr>"
    by (simp add: build_only_task_def start_def new_RalphTask_def)
  have a: "run_build (config build_only_task)" by (simp add: cfg)
  have b: "resolve_command (build_command (config build_only_task))
     (detect_build_command empty_world []) = Some ''make''"
    by (simp add: cfg resolve_command_def truthy_def)
  have c: "run_iteration (fixed_reply_env plain_reply) default_toolkit default_detector empty_world build_only_task =
           (fst (run_iteration (fixed_reply_env plain_reply) default_toolkit default_detector empty_world build_only_task), empty_world)
         \<and> backpressure_results (fst (run_iteration (fixed_reply_env plain_reply) default_toolkit default_detector empty_world build_only_task)) = []"
    by (simp add: run_iteration_def fixed_reply_env_def Let_def cfg unchecked_config_def
        new_RalphTaskConfig_def new_RalphIteration_def iteration_complete_def)
  have d: "map check_type
     (fst (run_backpressure null_shell [] default_toolkit empty_world
             build_only_task)) = [''build''] \<and>
   proc_log
     (snd (run_backpressure null_shell [] default_toolkit empty_world
             build_only_task)) = [Spawned ''make'' []]"
    by (simp add: run_backpressure_def Let_def cfg check_block_def unchecked_config_def
        new_RalphTaskConfig_def resolve_command_def truthy_def run_check_def
        run_shell_command_def null_shell_def empty_world_def default_toolkit_def
        new_RalphToolkit_def resolve_def
        path_step_def)
  from c have "proc_log (snd (run_iteration (fixed_reply_env plain_reply)
      default_toolkit default_detector empty_world
      build_only_task)) = []"
    by (metis snd_conv empty_world_def world.select_convs(2))
  with a b c d show ?thesis by simp
qed

section \<open>Path confinement\<close>

text \<open>A path that \<open>_resolve_path\<close> rejects is neither read nor written.\<close>

lemma rejected_path_touches_nothing:
  assumes "resolve_path tk p = Inl e"
  shows "tool_write_file tk w p c = (Inl e, tk, w)" and "tool_read_file tk w p s t = Inl e"
  using assms by (simp_all add: tool_write_file_def tool_read_file_def)

lemma app_toolkit_dir: "working_dir app_toolkit = [''srv'', ''app'']"
  by code_simp

lemma escape_resolved: "resolve [''srv'', ''app''] ''../app2/x.txt'' = [''srv'', ''app2'', ''x.txt'']"
  by code_simp

text \<open>
  Claim C1, at the input where the code departs from it. The working directory is
  \<open>/srv/app\<close> and the path \<open>../app2/x.txt\<close> resolves to \<open>/srv/app2/x.txt\<close>, which is
  not under the working directory. \<open>_resolve_path\<close> compares the two paths as strings,
  and \<open>/srv/app2/x.txt\<close> starts with \<open>/srv/app\<close>: \<open>write_file\<close> returns success and
  the file is written outside the working directory.
\<close>

theorem sibling_directory_escapes:
  "resolve (working_dir app_toolkit) ''../app2/x.txt'' = [''srv'', ''app2'', ''x.txt''] \<and>
   \<not> prefix (working_dir app_toolkit) [''srv'', ''app2'', ''x.txt''] \<and>
   fs app_world [''srv'', ''app2'', ''x.txt''] = None \<and>
   tc_error (fst escape_call) = None \<and>
   tc_result (fst escape_call) =
     Some [(''success'', JBool True), (''path'', JStr ''../app2/x.txt''),
           (''action'', JStr ''create''), (''lines'', JInt 1)] \<and>
   fs (snd (snd escape_call)) [''srv'', ''app2'', ''x.txt''] = Some (File ''hi'')"
proof -
  have "resolve (working_dir app_toolkit) ''../app2/x.txt'' = [''srv'', ''app2'', ''x.txt'']"
    by (simp add: app_toolkit_dir escape_resolved)
  moreover have "\<not> prefix (working_dir app_toolkit) [''srv'', ''app2'', ''x.txt'']"
    by (simp add: app_toolkit_dir)
  moreover have "fs app_world [''srv'', ''app2'', ''x.txt''] = None"
    by (simp add: app_world_def)
  moreover have "tc_error (fst escape_call) = None"
    unfolding escape_call_def by code_simp
  moreover have "tc_result (fst escape_call) =
     Some [(''success'', JBool True), (''path'', JStr ''../app2/x.txt''),
           (''action'', JStr ''create''), (''lines'', JInt 1)]"
    unfolding escape_call_def by code_simp
  moreover have "fs (snd (snd escape_call)) [''srv'', ''app2'', ''x.txt''] = Some (File ''hi'')"
    unfolding escape_call_def by code_simp
  ultimately show ?thesis by blast
qed

section \<open>Errors of a tool call\<close>

text \<open>Failures that a tool method handles itself come back as dictionaries.\<close>

lemma handled_failures_are_results:
  "resolve_path tk p = Inr q \<Longrightarrow> \<not> fs_exists (fs w) q \<Longrightarrow>
     tool_read_file tk w p s t = Inr [(''error'', JStr (''File not found: '' @ p))]"
  "\<not> allow_shell tk \<Longrightarrow>
     tool_run_command sh tk w command n = ([(''error'', JStr ''Shell commands are disabled'')], w)"
  "allow_shell tk \<Longrightarrow> first_dangerous dangerous command = Some d \<Longrightarrow>
     tool_run_command sh tk w command n =
       ([(''error'', JStr (''Dangerous command blocked: '' @ d))], w)"
  by (simp_all add: tool_read_file_def tool_run_command_def)

text \<open>
  Claim C7 as stated fails for a failure that the tool method reports itself:
  \<open>read_file\<close> of a missing file returns the dictionary with the entry \<open>error\<close>, which
  \<open>execute_tool\<close> stores as the result of the tool call; the error of the tool call
  stays unset.
\<close>

theorem soft_failure_counterexample:
  "fs app_world [''srv'', ''app'', ''nope.txt''] = None \<and>
   tc_error (fst missing_read) = None \<and>
   tc_result (fst missing_read) = Some [(''error'', JStr ''File not found: nope.txt'')]"
proof -
  have "tc_error (fst missing_read) = None"
    unfolding missing_read_def by code_simp
  moreover have "tc_result (fst missing_read) = Some [(''error'', JStr ''File not found: nope.txt'')]"
    unfolding missing_read_def by code_simp
  ultimately show ?thesis by (simp add: app_world_def)
qed

text \<open>
  Claim C7, amended. \<open>execute_tool\<close> always returns a tool call, with \<open>duration_ms\<close>
  set from the two clock readings. For an unknown tool name the tool call has the error
  \<open>Unknown tool: name\<close> and no result. When the tool method raises, the tool call has the
  text of the exception as its error and no result. When the tool method returns a
  dictionary, also one with an entry \<open>error\<close>, the tool call has this dictionary as its
  result and no error.
\<close>

theorem execute_tool_outcomes:
  "tc_duration_ms (fst (execute_tool sh others tk w name args t0 t1)) = py_int ((t1 - t0) * 1000) \<and>
   (case getattr_tool sh others name of
      None \<Rightarrow>
        fst (execute_tool sh others tk w name args t0 t1) =
          (new_ToolCall name args)
            \<lparr>tc_error := Some (''Unknown tool: '' @ name),
              tc_duration_ms := py_int ((t1 - t0) * 1000)\<rparr> \<and>
        snd (execute_tool sh others tk w name args t0 t1) = (tk, w)
    | Some m \<Rightarrow>
        (case m tk w args of
           (Inl e, st) \<Rightarrow>
             fst (execute_tool sh others tk w name args t0 t1) =
               (new_ToolCall name args)
                 \<lparr>tc_error := Some (exn_str e),
                   tc_duration_ms := py_int ((t1 - t0) * 1000)\<rparr> \<and>
             snd (execute_tool sh others tk w name args t0 t1) = st
         | (Inr res, st) \<Rightarrow>
             fst (execute_tool sh others tk w name args t0 t1) =
               (new_ToolCall name args)
                 \<lparr>tc_result := Some res,
                   tc_duration_ms := py_int ((t1 - t0) * 1000)\<rparr> \<and>
             snd (execute_tool sh others tk w name args t0 t1) = st))"
  by (simp add: execute_tool_def Let_def new_ToolCall_def split: option.splits prod.splits sum.splits)

section \<open>The timeout of a command\<close>

text \<open>
  Claim C5 as stated fails: when the subprocess is still running at the timeout, the
  dictionary returned has the entries \<open>error\<close> and \<open>exit_code\<close> only. The output that
  the subprocess has written is not in it.
\<close>

theorem timeout_drops_output_counterexample:
  "hanging_shell app_world ''sleep 100'' (working_dir app_toolkit) 5 =
     (TimedOut ''partial output'' [], fs app_world) \<and>
   fst (tool_run_command hanging_shell app_toolkit app_world ''sleep 100'' 5) =
     [(''error'', JStr ''Command timed out after 5s''), (''exit_code'', JInt (- 1))] \<and>
   map_of (fst (tool_run_command hanging_shell app_toolkit app_world ''sleep 100'' 5)) ''stdout'' =
     None"
proof -
  have "fst (tool_run_command hanging_shell app_toolkit app_world ''sleep 100'' 5) =
     [(''error'', JStr ''Command timed out after 5s''), (''exit_code'', JInt (- 1))]"
    by code_simp
  then show ?thesis by (simp add: hanging_shell_def)
qed

text \<open>
  Claim C5, amended. For a \<open>run_command\<close> that the toolkit allows and does not block,
  whose subprocess is still running at the timeout (the timeout given, at most 300): the
  subprocess is killed, and the dictionary returned has the exit code \<open>-1\<close> and the
  error text \<open>Command timed out after\<close> with the timeout; it has no entry \<open>stdout\<close> or
  \<open>stderr\<close>.
\<close>

theorem run_command_timeout:
  assumes "allow_shell tk"
    and "first_dangerous dangerous command = None"
    and "sh w command (working_dir tk) (min t 300) = (TimedOut out err, f)"
  shows "tool_run_command sh tk w command t =
           ([(''error'', JStr (''Command timed out after '' @ str_int (min t 300) @ ''s'')),
             (''exit_code'', JInt (- 1))],
            w\<lparr>fs := f,
              proc_log := proc_log w @ [Spawned command (working_dir tk), Killed command]\<rparr>) \<and>
         map_of (fst (tool_run_command sh tk w command t)) ''exit_code'' = Some (JInt (- 1)) \<and>
         map_of (fst (tool_run_command sh tk w command t)) ''stdout'' = None \<and>
         map_of (fst (tool_run_command sh tk w command t)) ''stderr'' = None \<and>
         Killed command \<in> set (proc_log (snd (tool_run_command sh tk w command t)))"
  using assms by (simp add: tool_run_command_def run_shell_command_def)

text \<open>The theorem at a command that hangs, with a timeout of 5 seconds.\<close>

theorem run_command_timeout_witness:
  "allow_shell app_toolkit \<and> first_dangerous dangerous ''sleep 100'' = None \<and>
   map_of (fst (tool_run_command hanging_shell app_toolkit app_world ''sleep 100'' 5)) ''exit_code'' =
     Some (JInt (- 1)) \<and>
   map_of (fst (tool_run_command hanging_shell app_toolkit app_world ''sleep 100'' 5)) ''stdout'' =
     None \<and>
   Killed ''sleep 100'' \<in>
     set (proc_log (snd (tool_run_command hanging_shell app_toolkit app_world ''sleep 100'' 5)))"
proof -
  have a: "allow_shell app_toolkit" by (simp add: app_toolkit_def new_RalphToolkit_def)
  have b: "first_dangerous dangerous ''sleep 100'' = None" by code_simp
  have c: "hanging_shell app_world ''sleep 100'' (working_dir app_toolkit) (min 5 300) =
             (TimedOut ''partial output'' [], fs app_world)"
    by (simp add: hanging_shell_def)
  show ?thesis
    using run_command_timeout [where sh = hanging_shell and w = app_world and t = 5, OF a b c] a b
    by simp
qed

section \<open>Writing and reading back\<close>

lemma universal_newlines_id: "carriage_return \<notin> set s \<Longrightarrow> universal_newlines s = s"
  by (induction s rule: universal_newlines.induct) auto

lemma write_text_result:
  assumes "write_text f p c = Inr f'"
  shows "f' = f(p \<mapsto> File c)" and "p \<noteq> []"
  using assms by (auto simp: write_text_def is_dir_def split: if_splits)

lemma write_file_success:
  assumes "tool_write_file tk w p c = (Inr res, tk', w')"
    and "map_of res ''success'' = Some (JBool True)"
  shows "\<exists>full_path f1. resolve_path tk p = Inr full_path \<and> full_path \<noteq> [] \<and>
           fs w' = f1(full_path \<mapsto> File c) \<and> working_dir tk' = working_dir tk"
proof (cases "resolve_path tk p")
  case (Inl e)
  then show ?thesis using assms by (simp add: tool_write_file_def)
next
  case (Inr full_path)
  show ?thesis
  proof (cases "mkdir_parents (fs w) (butlast full_path)")
    case (Inl e)
    then show ?thesis using assms Inr by (auto simp: tool_write_file_def)
  next
    case f1: (Inr f1)
    show ?thesis
    proof (cases "write_text f1 full_path c")
      case (Inl e)
      then show ?thesis using assms Inr f1
        by (auto simp: tool_write_file_def Let_def split: sum.splits if_splits)
    next
      case f2: (Inr f2)
      from write_text_result [OF f2] have "f2 = f1(full_path \<mapsto> File c)" "full_path \<noteq> []" .
      moreover have "fs w' = f2 \<and> working_dir tk' = working_dir tk"
        using assms Inr f1 f2
        by (auto simp: tool_write_file_def Let_def split: sum.splits if_splits)
      ultimately show ?thesis using Inr by blast
    qed
  qed
qed

text \<open>
  Claim C9 as stated fails for a content with a carriage return: the file is written as
  it is and read with universal newlines, so that \<open>a\rb\<close> comes back as \<open>a\nb\<close>.
\<close>

theorem carriage_return_counterexample:
  "fst cr_written =
     Inr [(''success'', JBool True), (''path'', JStr ''notes.txt''), (''action'', JStr ''create''),
          (''lines'', JInt 1)] \<and>
   map_sum id (\<lambda>r. map_of r ''content'')
     (tool_read_file (fst (snd cr_written)) (snd (snd cr_written)) ''notes.txt'' None None) =
     Inr (Some (JStr lf_text)) \<and>
   lf_text \<noteq> cr_text"
proof -
  have "fst cr_written =
     Inr [(''success'', JBool True), (''path'', JStr ''notes.txt''), (''action'', JStr ''create''),
          (''lines'', JInt 1)]"
    unfolding cr_written_def by code_simp
  moreover have "map_sum id (\<lambda>r. map_of r ''content'')
     (tool_read_file (fst (snd cr_written)) (snd (snd cr_written)) ''notes.txt'' None None) =
     Inr (Some (JStr lf_text))"
    unfolding cr_written_def by code_simp
  moreover have "lf_text \<noteq> cr_text" by code_simp
  ultimately show ?thesis by blast
qed

text \<open>
  Claim C9, amended. After a successful \<open>write_file\<close> of the content \<open>c\<close> to the path
  \<open>p\<close>, \<open>read_file\<close> of \<open>p\<close> with no line range returns as content \<open>c\<close> with each
  \<open>\r\n\<close> and each remaining \<open>\r\<close> replaced by \<open>\n\<close>; this is \<open>c\<close> itself when \<open>c\<close>
  has no carriage return.
\<close>

theorem write_then_read:
  assumes "tool_write_file tk w p c = (Inr res, tk', w')"
    and "map_of res ''success'' = Some (JBool True)"
  shows "\<exists>r. tool_read_file tk' w' p None None = Inr r \<and>
             map_of r ''content'' = Some (JStr (universal_newlines c)) \<and>
             (carriage_return \<notin> set c \<longrightarrow> map_of r ''content'' = Some (JStr c))"
proof -
  from write_file_success [OF assms] obtain full_path f1 where
    rp: "resolve_path tk p = Inr full_path" and ne: "full_path \<noteq> []"
    and fs': "fs w' = f1(full_path \<mapsto> File c)" and wd: "working_dir tk' = working_dir tk"
    by blast
  have "resolve_path tk' p = resolve_path tk p"
    by (simp add: resolve_path_def wd)
  then have "resolve_path tk' p = Inr full_path"
    using rp by simp
  then have "tool_read_file tk' w' p None None =
    Inr [(''path'', JStr p), (''content'', JStr (universal_newlines c)),
         (''lines'', JInt (count_lines (universal_newlines c))),
         (''size'', JInt (int (py_len (universal_newlines c))))]"
    using ne fs'
    by (simp add: tool_read_file_def fs_exists_def is_file_def read_text_def Let_def)
  then show ?thesis by (simp add: universal_newlines_id)
qed

text \<open>The theorem at a write of \<open>hi\<close> to \<open>notes.txt\<close>.\<close>

theorem write_then_read_witness:
  "fst plain_written =
     Inr [(''success'', JBool True), (''path'', JStr ''notes.txt''), (''action'', JStr ''create''),
          (''lines'', JInt 1)] \<and>
   (\<exists>r. tool_read_file (fst (snd plain_written)) (snd (snd plain_written)) ''notes.txt'' None None =
           Inr r \<and> map_of r ''content'' = Some (JStr ''hi''))"
proof -
  have w: "fst plain_written =
     Inr [(''success'', JBool True), (''path'', JStr ''notes.txt''), (''action'', JStr ''create''),
          (''lines'', JInt 1)]"
    unfolding plain_written_def by code_simp
  then have eq: "tool_write_file app_toolkit app_world ''notes.txt'' ''hi'' =
      (Inr [(''success'', JBool True), (''path'', JStr ''notes.txt''), (''action'', JStr ''create''),
            (''lines'', JInt 1)], fst (snd plain_written), snd (snd plain_written))"
    by (simp add: plain_written_def prod_eq_iff)
  have s: "map_of [(''success'', JBool True), (''path'', JStr ''notes.txt''),
                   (''action'', JStr ''create''), (''lines'', JInt 1)] ''success'' =
           Some (JBool True)"
    by simp
  have nocr: "carriage_return \<notin> set ''hi''" by (simp add: carriage_return_def)
  show ?thesis using write_then_read [OF eq s] w nocr by auto
qed

end
